theory Spec2Isabelle
  imports Complex_Main "HOL-Library.AList"
begin

section \<open>Values, errors and expression trees\<close>

text \<open>
  The module \<^verbatim>\<open>openmdao/main/pseudocomp.py\<close> is embedded method by method.
  Python floats are idealised as \<^typ>\<open>real\<close>. Exceptions are values of the
  type \<open>error\<close>; a constructor that raises returns \<open>Inl\<close> and no object.
\<close>

datatype error =
    RuntimeError string
  | TypeError string
  | ValueError string
  | AttributeError string
  | KeyError string
  | IndexError
  | SyntaxError string
  | ZeroDivisionError

text \<open>
  The values a slot of a node can hold: \<open>None\<close>, a plain number, a
  \<^verbatim>\<open>PhysicalQuantity\<close> (value and unit name; \<^verbatim>\<open>UnitsOnlyPQ\<close> is its subclass), a
  \<^verbatim>\<open>UnitsAttrWrapper\<close> (given by the value and unit name of its \<^verbatim>\<open>pq\<close>), or any
  other object.
\<close>

datatype pyval =
    PyNone
  | PyFloat real
  | PhysicalQuantity real string
  | UnitsAttrWrapper real string
  | PyObject string

text \<open>The part of Python's \<^verbatim>\<open>ast\<close> that the unit rewrite builds and reads.\<close>

datatype operator = Add | Sub | Mult | Div

datatype expr =
    Num real
  | Name string
  | BinOp expr operator expr

type_synonym metadata = "(string \<times> string) list"

text \<open>
  An expression evaluator as this module sees it: its \<^verbatim>\<open>text\<close>, the result of
  \<^verbatim>\<open>refs()\<close> and the result of \<^verbatim>\<open>get_metadata()\<close>.
\<close>

record exprevaluator =
  expr_text :: string
  refs :: "string list"
  get_metadata :: "(string \<times> metadata) list"

text \<open>\<^verbatim>\<open>DummyExpr\<close>: the destination of a node built without one.\<close>

definition DummyExpr :: exprevaluator where
  "DummyExpr = \<lparr> expr_text = [], refs = [[]], get_metadata = [([], [])] \<rparr>"

section \<open>Collaborators\<close>

text \<open>
  The parser and printer of expressions (\<^verbatim>\<open>ast.parse\<close>, \<^verbatim>\<open>print_node\<close>,
  \<^verbatim>\<open>transform_expression\<close>), the unit library, the gradient of the expression
  evaluator, the owning graph's \<^verbatim>\<open>update_inputs\<close> and the C formatting of
  \<^verbatim>\<open>%.15g\<close> are not part of the module. They are parameters of the model, collected
  in one record:
  \<^item> \<open>parse\<close>: text to tree, or a syntax error;
  \<^item> \<open>print_node\<close>: tree to text;
  \<^item> \<open>transform_expression\<close>: rename the references of a text by a dictionary;
  \<^item> \<open>object_binop\<close>: Python's arithmetic on operands that are not both plain
    numbers (the algebra of physical quantities among them);
  \<^item> \<open>conversion_tuple_to\<close>: the pair (scaler, adder) from one unit to another,
    \<open>None\<close> where the library raises \<^verbatim>\<open>TypeError\<close> for incompatible units;
  \<^item> \<open>in_units_of\<close>: the value of a quantity in another unit;
  \<^item> \<open>evaluate_gradient\<close>: the dictionary of partial derivatives of a text at
    the current slot values;
  \<^item> \<open>update_inputs\<close>: the values the owning graph pushes into the slots of the
    named node, through \<^verbatim>\<open>set\<close>, when asked to refresh them;
  \<^item> \<open>format_g\<close>: \<^verbatim>\<open>'%.15g' % x\<close>.
\<close>

record world =
  parse :: "string \<Rightarrow> error + expr"
  print_node :: "expr \<Rightarrow> string"
  transform_expression :: "string \<Rightarrow> (string \<times> string) list \<Rightarrow> string"
  object_binop :: "operator \<Rightarrow> pyval \<Rightarrow> pyval \<Rightarrow> error + pyval"
  conversion_tuple_to :: "string \<Rightarrow> string \<Rightarrow> (real \<times> real) option"
  in_units_of :: "real \<Rightarrow> string \<Rightarrow> string \<Rightarrow> error + real"
  evaluate_gradient :: "string \<Rightarrow> (string \<rightharpoonup> pyval) \<Rightarrow> error + (string \<times> real) list"
  update_inputs :: "string \<Rightarrow> error + (string \<times> pyval) list"
  format_g :: "real \<Rightarrow> string"

section \<open>Names\<close>

definition digit_char :: "nat \<Rightarrow> char" where
  "digit_char d = ''0123456789'' ! d"

fun string_of_nat :: "nat \<Rightarrow> string" where
  "string_of_nat n =
     (if n < 10 then [digit_char n]
      else string_of_nat (n div 10) @ [digit_char (n mod 10)])"

declare string_of_nat.simps [simp del]

text \<open>
  \<^verbatim>\<open>_get_new_name\<close>: the module-level counter is read and incremented (under the
  lock); the new counter is returned with the name.
\<close>

definition get_new_name :: "nat \<Rightarrow> string \<times> nat" where
  "get_new_name count = (''_pseudo_'' @ string_of_nat count, count + 1)"

definition get_varname :: "string \<Rightarrow> string" where
  "get_varname name = takeWhile (\<lambda>c. c \<noteq> CHR ''['') name"

definition invert_dict :: "('a \<times> 'b) list \<Rightarrow> ('b \<times> 'a) list" where
  "invert_dict dct = foldl (\<lambda>out (k, v). AList.update v k out) [] dct"

section \<open>The unit transform\<close>

definition scaler_adder_xform :: "expr \<Rightarrow> real \<Rightarrow> real \<Rightarrow> expr" where
  "scaler_adder_xform node scaler adder =
     (let newnode = (if adder \<noteq> 0 then BinOp node Add (Num adder) else node)
      in if scaler \<noteq> 1 then BinOp newnode Mult (Num scaler) else newnode)"

definition quote :: string where
  "quote = [CHR 0x27]"

text \<open>
  \<^verbatim>\<open>unit_xform\<close>. Units are given by their names, and every name is taken to be one
  the unit library knows: \<^verbatim>\<open>PhysicalQuantity(1.0, units)\<close> does not raise.
\<close>

definition unit_xform :: "world \<Rightarrow> expr \<Rightarrow> string \<Rightarrow> string \<Rightarrow> error + expr" where
  "unit_xform w node in_units out_units =
     (case conversion_tuple_to w in_units out_units of
        None \<Rightarrow> Inl (TypeError (''units '' @ quote @ in_units @ quote @
                  '' are incompatible with assigning units of '' @ quote @ out_units @ quote))
      | Some (scaler, adder) \<Rightarrow> Inr (scaler_adder_xform node scaler adder))"

section \<open>Evaluating expressions\<close>

text \<open>
  Modelled from the spec: the expression evaluator (\<^verbatim>\<open>openmdao.main.expreval\<close>, not
  part of the module) "evaluates to a numeric/unit-tagged value". Names are read from
  the scope; arithmetic on two plain numbers is the arithmetic of numbers; every other
  pair of operands goes to \<open>object_binop\<close>.
\<close>

fun float_binop :: "operator \<Rightarrow> real \<Rightarrow> real \<Rightarrow> error + pyval" where
  "float_binop Add a b = Inr (PyFloat (a + b))"
| "float_binop Sub a b = Inr (PyFloat (a - b))"
| "float_binop Mult a b = Inr (PyFloat (a * b))"
| "float_binop Div a b = (if b = 0 then Inl ZeroDivisionError else Inr (PyFloat (a / b)))"

fun binop :: "world \<Rightarrow> operator \<Rightarrow> pyval \<Rightarrow> pyval \<Rightarrow> error + pyval" where
  "binop w op (PyFloat a) (PyFloat b) = float_binop op a b"
| "binop w op a b = object_binop w op a b"

fun evaluate :: "world \<Rightarrow> (string \<rightharpoonup> pyval) \<Rightarrow> expr \<Rightarrow> error + pyval" where
  "evaluate w env (Num x) = Inr (PyFloat x)"
| "evaluate w env (Name a) =
     (case env a of None \<Rightarrow> Inl (AttributeError a) | Some v \<Rightarrow> Inr v)"
| "evaluate w env (BinOp l op r) =
     (case evaluate w env l of
        Inl e \<Rightarrow> Inl e
      | Inr a \<Rightarrow> (case evaluate w env r of
                   Inl e \<Rightarrow> Inl e
                 | Inr b \<Rightarrow> binop w op a b))"

definition evaluate_text :: "world \<Rightarrow> (string \<rightharpoonup> pyval) \<Rightarrow> string \<Rightarrow> error + pyval" where
  "evaluate_text w env s =
     (case parse w s of Inl e \<Rightarrow> Inl e | Inr t \<Rightarrow> evaluate w env t)"

section \<open>The node\<close>

datatype cls = PseudoComponent | ParamPseudoComponent

text \<open>
  The fields of a node. \<open>attrs\<close> holds the attributes created with \<^verbatim>\<open>setattr\<close>
  (the slots \<^verbatim>\<open>in0\<close>, \<^verbatim>\<open>in1\<close>, ..., \<^verbatim>\<open>out0\<close>); \<open>J\<close> is \<open>None\<close> until
  \<^verbatim>\<open>linearize\<close> has assigned it; \<open>scaler_adder\<close> is present on a
  \<^verbatim>\<open>ParamPseudoComponent\<close> only. \<open>srcexpr\<close> and \<open>destexpr\<close> are the texts of the
  two evaluators bound to the node. \<^verbatim>\<open>get\<close> and \<^verbatim>\<open>set\<close> are modelled on the names of
  slots: a path that is the name of one of the other fields of the object is outside
  the model.
\<close>

record node =
  cls :: cls
  name :: string
  inmap :: "(string \<times> string) list"
  meta :: "(string \<times> metadata) list"
  valid :: bool
  inputs :: "string list"
  outdests :: "string list"
  srcunits :: "string option"
  srcexpr :: string
  destexpr :: string
  eqn :: string
  attrs :: "string \<rightharpoonup> pyval"
  J :: "real list list option"
  scaler_adder :: "(real \<times> real) option"

subsection \<open>Connections\<close>

definition list_connections :: "node \<Rightarrow> bool \<Rightarrow> (string \<times> string) list" where
  "list_connections n is_hidden =
     (case cls n of
        ParamPseudoComponent \<Rightarrow>
          (if is_hidden then []
           else map (\<lambda>dest. (name n @ ''.'' @ ''out0'', dest)) (outdests n))
      | PseudoComponent \<Rightarrow>
          (if is_hidden then
             (case outdests n of
                [] \<Rightarrow> []
              | d # _ \<Rightarrow> map (\<lambda>src. (src, d)) (filter (\<lambda>src. src \<noteq> []) (map fst (inmap n))))
           else
             map (\<lambda>(src, dest). (src, name n @ ''.'' @ dest)) (inmap n) @
             (if outdests n \<noteq> []
              then map (\<lambda>dest. (name n @ ''.'' @ ''out0'', dest)) (outdests n)
              else [])))"

definition add_target :: "node \<Rightarrow> string \<Rightarrow> node" where
  "add_target n target = n\<lparr>outdests := outdests n @ [target]\<rparr>"

subsection \<open>Validity\<close>

definition invalidate_deps :: "node \<Rightarrow> string list option \<Rightarrow> bool \<Rightarrow> node" where
  "invalidate_deps n varnames force = n\<lparr>valid := False\<rparr>"

definition connect :: "node \<Rightarrow> string \<Rightarrow> string \<Rightarrow> node" where
  "connect n src dest = n\<lparr>valid := False\<rparr>"

definition is_valid :: "node \<Rightarrow> bool" where
  "is_valid n = valid n"

definition get_valid :: "node \<Rightarrow> string list \<Rightarrow> bool list" where
  "get_valid n names = replicate (length names) (valid n)"

subsection \<open>Slots\<close>

definition get_pc :: "node \<Rightarrow> string \<Rightarrow> 'i option \<Rightarrow> error + pyval" where
  "get_pc n nm index =
     (if index \<noteq> None then Inl (RuntimeError ''index not supported in PseudoComponent.get'')
      else case attrs n nm of
             None \<Rightarrow> Inl (AttributeError nm)
           | Some v \<Rightarrow> Inr v)"

definition set_pc :: "node \<Rightarrow> string \<Rightarrow> pyval \<Rightarrow> 'i option \<Rightarrow> error + node" where
  "set_pc n path val index =
     (if index \<noteq> None then Inl (ValueError ''index not supported in PseudoComponent.set'')
      else case val of
             UnitsAttrWrapper v u \<Rightarrow> Inr (n\<lparr>attrs := (attrs n)(path \<mapsto> PyFloat v)\<rparr>)
           | PhysicalQuantity v u \<Rightarrow> Inr (n\<lparr>attrs := (attrs n)(path \<mapsto> PyFloat v)\<rparr>)
           | _ \<Rightarrow> Inr (n\<lparr>attrs := (attrs n)(path \<mapsto> val)\<rparr>))"

subsection \<open>Running\<close>

text \<open>
  A method that can raise after it has changed the node returns \<open>Inl (e, n')\<close>: the
  exception and the node as the exception leaves it.

  \<open>refresh\<close> is \<^verbatim>\<open>self._parent.update_inputs(self.name, None)\<close>: the graph's values
  arrive through \<^verbatim>\<open>set\<close>, without an index.
\<close>

fun push_values :: "node \<Rightarrow> (string \<times> pyval) list \<Rightarrow> (error \<times> node) + node" where
  "push_values n [] = Inr n"
| "push_values n ((k, v) # kvs) =
     (case set_pc n k v (None :: unit option) of
        Inl e \<Rightarrow> Inl (e, n)
      | Inr n' \<Rightarrow> push_values n' kvs)"

definition refresh :: "world \<Rightarrow> node \<Rightarrow> (error \<times> node) + node" where
  "refresh w n =
     (case update_inputs w (name n) of
        Inl e \<Rightarrow> Inl (e, n)
      | Inr kvs \<Rightarrow> push_values n kvs)"

text \<open>
  The branch of \<^verbatim>\<open>run\<close> for a result that is a \<^verbatim>\<open>PhysicalQuantity\<close>.
\<close>

definition strip_units :: "world \<Rightarrow> node \<Rightarrow> pyval \<Rightarrow> error + pyval" where
  "strip_units w n src =
     (case src of
        PhysicalQuantity v u \<Rightarrow>
          (case map_of (meta n) ''out0'' of
             None \<Rightarrow> Inl (KeyError ''out0'')
           | Some m \<Rightarrow>
               (case map_of m ''units'' of
                  Some units \<Rightarrow>
                    (case in_units_of w v u units of
                       Inl e \<Rightarrow> Inl e
                     | Inr v' \<Rightarrow> Inr (PyFloat v'))
                | None \<Rightarrow> Inr (PyFloat v)))
      | _ \<Rightarrow> Inr src)"

text \<open>
  Modelled from the spec: \<^verbatim>\<open>self._destexpr.set(src)\<close> "writes a value into the
  expression's bound destination"; the scope of the destination evaluator is the node,
  so the value is stored, through \<^verbatim>\<open>set\<close>, in the slot the destination text names.
\<close>

definition run :: "world \<Rightarrow> node \<Rightarrow> (error \<times> node) + node" where
  "run w n =
     (case (if \<not> valid n then refresh w n else Inr n) of
        Inl x \<Rightarrow> Inl x
      | Inr n1 \<Rightarrow>
          (case evaluate_text w (attrs n1) (srcexpr n1) of
             Inl e \<Rightarrow> Inl (e, n1)
           | Inr src \<Rightarrow>
               (case strip_units w n1 src of
                  Inl e \<Rightarrow> Inl (e, n1)
                | Inr src' \<Rightarrow>
                    (case set_pc n1 (destexpr n1) src' (None :: unit option) of
                       Inl e \<Rightarrow> Inl (e, n1)
                     | Inr n2 \<Rightarrow> Inr (n2\<lparr>valid := True\<rparr>)))))"

definition update_outputs :: "world \<Rightarrow> node \<Rightarrow> string list \<Rightarrow> (error \<times> node) + node" where
  "update_outputs w n names = run w n"

subsection \<open>Derivatives\<close>

fun lookup_all :: "(string \<times> real) list \<Rightarrow> string list \<Rightarrow> error + real list" where
  "lookup_all grad [] = Inr []"
| "lookup_all grad (k # ks) =
     (case map_of grad k of
        None \<Rightarrow> Inl (KeyError k)
      | Some g \<Rightarrow> (case lookup_all grad ks of
                     Inl e \<Rightarrow> Inl e
                   | Inr gs \<Rightarrow> Inr (g # gs)))"

definition linearize :: "world \<Rightarrow> node \<Rightarrow> (error \<times> node) + node" where
  "linearize w n =
     (case evaluate_gradient w (srcexpr n) (attrs n) of
        Inl e \<Rightarrow> Inl (e, n)
      | Inr grad \<Rightarrow>
          (case lookup_all grad (inputs n) of
             Inl e \<Rightarrow> Inl (e, n)
           | Inr row \<Rightarrow> Inr (n\<lparr>J := Some [row]\<rparr>)))"

definition calc_derivatives :: "world \<Rightarrow> node \<Rightarrow> bool \<Rightarrow> bool \<Rightarrow> (error \<times> node) + node" where
  "calc_derivatives w n first second =
     (case (if first then linearize w n else Inr n) of
        Inl x \<Rightarrow> Inl x
      | Inr n1 \<Rightarrow>
          (if second
           then Inl (RuntimeError (''2nd derivatives not supported in pseudocomponent '' @ name n1), n1)
           else Inr n1))"

definition provideJ :: "node \<Rightarrow> error + (string list \<times> string list \<times> real list list)" where
  "provideJ n =
     (case J n of
        None \<Rightarrow> Inl (AttributeError ''J'')
      | Some j \<Rightarrow> Inr (inputs n, [''out0''], j))"

section \<open>Construction\<close>

text \<open>
  What a constructor can reach outside the node it builds: the module-level counter
  \<^verbatim>\<open>_count\<close> and the owning graph (\<^verbatim>\<open>parent\<close>), given by its edges. A constructor
  takes this state and returns it with its result.
\<close>

record process =
  count :: nat
  edges :: "(string \<times> string) list"

definition error_message :: "error \<Rightarrow> string" where
  "error_message e =
     (case e of
        RuntimeError m \<Rightarrow> m
      | TypeError m \<Rightarrow> m
      | ValueError m \<Rightarrow> m
      | AttributeError m \<Rightarrow> m
      | KeyError m \<Rightarrow> m
      | IndexError \<Rightarrow> ''list index out of range''
      | SyntaxError m \<Rightarrow> m
      | ZeroDivisionError \<Rightarrow> ''float division by zero'')"

text \<open>\<^verbatim>\<open>for name, meta in e.get_metadata(): self._meta[name] = meta\<close>\<close>

definition store_metadata ::
  "(string \<times> metadata) list \<Rightarrow> exprevaluator \<Rightarrow> (string \<times> metadata) list" where
  "store_metadata m e = foldl (\<lambda>acc (nm, md). AList.update nm md acc) m (get_metadata e)"

text \<open>
  The loop over \<^verbatim>\<open>enumerate(srcexpr.refs())\<close>; the state is
  (\<^verbatim>\<open>_inputs\<close>, \<^verbatim>\<open>_inmap\<close>, \<^verbatim>\<open>varmap\<close>, attributes).
\<close>

type_synonym bindings =
  "string list \<times> (string \<times> string) list \<times> (string \<times> string) list \<times> (string \<rightharpoonup> pyval)"

fun bind_refs :: "nat \<Rightarrow> string list \<Rightarrow> bindings \<Rightarrow> bindings" where
  "bind_refs i [] st = st"
| "bind_refs i (ref # rest) (ins, imap, varmap, slots) =
     (let in_name = ''in'' @ string_of_nat i
      in bind_refs (i + 1) rest
           (ins @ [in_name], AList.update ref in_name imap,
            AList.update (get_varname ref) in_name varmap, slots(in_name \<mapsto> PyNone)))"

text \<open>\<^verbatim>\<open>for key, val in self._meta.items(): newmeta[varmap[key]] = val\<close>\<close>

fun attach_metadata ::
  "(string \<times> string) list \<Rightarrow> (string \<times> metadata) list \<Rightarrow> (string \<times> metadata) list
     \<Rightarrow> error + (string \<times> metadata) list" where
  "attach_metadata varmap [] newmeta = Inr newmeta"
| "attach_metadata varmap ((key, val) # rest) newmeta =
     (case map_of varmap key of
        None \<Rightarrow> Inl (KeyError key)
      | Some k \<Rightarrow> attach_metadata varmap rest (AList.update k val newmeta))"

text \<open>
  The trial environment: \<^verbatim>\<open>UnitsOnlyPQ(0., units)\<close> for an input whose metadata has
  a non-empty unit, \<^verbatim>\<open>0.\<close> otherwise.
\<close>

fun trial_values ::
  "(string \<times> metadata) list \<Rightarrow> string list \<Rightarrow> error + (string \<times> pyval) list" where
  "trial_values m [] = Inr []"
| "trial_values m (inp # rest) =
     (case map_of m inp of
        None \<Rightarrow> Inl (KeyError inp)
      | Some md \<Rightarrow>
          (case trial_values m rest of
             Inl e \<Rightarrow> Inl e
           | Inr tmp \<Rightarrow>
               Inr ((inp, (case map_of md ''units'' of
                             Some units \<Rightarrow> (if units \<noteq> [] then PhysicalQuantity 0 units
                                             else PyFloat 0)
                           | None \<Rightarrow> PyFloat 0)) # tmp)))"

text \<open>
  Lines 127 to 153 of the constructor: the text of the source after the unit rewrite,
  and the inferred unit. \<open>m\<close> is the new metadata, \<open>ins\<close> the input names.
\<close>

definition unit_pass ::
  "world \<Rightarrow> exprevaluator \<Rightarrow> exprevaluator \<Rightarrow> (string \<times> metadata) list \<Rightarrow> string list
     \<Rightarrow> string \<Rightarrow> error + (string \<times> string option)" where
  "unit_pass w srcexpr0 destexpr0 m ins xformed_src =
     (case map_of m ''out0'' of
        None \<Rightarrow> Inl (KeyError ''out0'')
      | Some md \<Rightarrow>
          (case map_of md ''units'' of
             None \<Rightarrow> Inr (xformed_src, None)
           | Some out_units \<Rightarrow>
               (case trial_values m ins of
                  Inl e \<Rightarrow> Inl e
                | Inr tmpdict \<Rightarrow>
                    (case evaluate_text w (map_of tmpdict) xformed_src of
                       Inl e \<Rightarrow> Inl e
                     | Inr (PhysicalQuantity v in_units) \<Rightarrow>
                         (case parse w xformed_src of
                            Inl e \<Rightarrow> Inl e
                          | Inr unitnode \<Rightarrow>
                              (case unit_xform w unitnode in_units out_units of
                                 Inl err \<Rightarrow>
                                   Inl (TypeError (''Can'' @ quote @ ''t connect '' @ quote @
                                          expr_text srcexpr0 @ quote @ '' to '' @ quote @
                                          expr_text destexpr0 @ quote @ '': '' @ error_message err))
                               | Inr unitxform \<Rightarrow> Inr (print_node w unitxform, Some in_units)))
                     | Inr _ \<Rightarrow> Inl (AttributeError ''unit'')))))"

text \<open>
  \<^verbatim>\<open>PseudoComponent.__init__\<close>, in two parts. The class of the object is an argument,
  because \<^verbatim>\<open>ParamPseudoComponent.__init__\<close> runs this constructor on its own object.

  \<open>init_slots\<close> is the constructor from line 81 to line 125: it returns the object as it
  is there, with the two transformed texts \<^verbatim>\<open>xformed_src\<close> and \<^verbatim>\<open>xformed_dest\<close> in the
  fields \<open>srcexpr\<close> and \<open>destexpr\<close>; \<open>srcunits\<close> and \<open>eqn\<close> are assigned by the second
  part.
\<close>

definition init_slots ::
  "world \<Rightarrow> cls \<Rightarrow> string \<Rightarrow> exprevaluator \<Rightarrow> exprevaluator \<Rightarrow> bool \<Rightarrow> error + node" where
  "init_slots w c nm srcexpr0 destexpr0 translate =
     (let outdests0 = (if expr_text destexpr0 \<noteq> [] then [expr_text destexpr0] else []);
          meta0 = store_metadata [] srcexpr0;
          (ins, imap, varmap, slots0) = bind_refs 0 (refs srcexpr0) ([], [], [], Map.empty);
          drefs = refs destexpr0
      in if drefs \<noteq> [] \<and> length drefs \<noteq> 1
         then Inl (RuntimeError ''output of PseudoComponent must reference only one variable'')
         else
           (let slots1 = (if drefs \<noteq> [] then slots0(''out0'' \<mapsto> PyNone) else slots0)
            in (case attach_metadata varmap meta0 [] of
                  Inl e \<Rightarrow> Inl e
                | Inr newmeta \<Rightarrow>
                    (case drefs of
                       [] \<Rightarrow> Inl IndexError
                     | r0 # _ \<Rightarrow>
                         (case map_of (store_metadata meta0 destexpr0) (get_varname r0) of
                            None \<Rightarrow> Inl (KeyError (get_varname r0))
                          | Some md \<Rightarrow>
                              Inr \<lparr> cls = c, name = nm, inmap = imap,
                                    meta = AList.update ''out0'' md newmeta,
                                    valid = False, inputs = ins, outdests = outdests0,
                                    srcunits = None,
                                    srcexpr =
                                      (if translate
                                       then transform_expression w (expr_text srcexpr0) imap
                                       else expr_text srcexpr0),
                                    destexpr =
                                      transform_expression w (expr_text destexpr0)
                                        [(expr_text destexpr0, ''out0'')],
                                    eqn = [], attrs = slots1, J = None,
                                    scaler_adder = None \<rparr>)))))"

definition PseudoComponent_init ::
  "world \<Rightarrow> cls \<Rightarrow> process \<Rightarrow> exprevaluator \<Rightarrow> exprevaluator option \<Rightarrow> bool
     \<Rightarrow> process \<times> (error + node)" where
  "PseudoComponent_init w c ps srcexpr0 destexpr_opt translate =
     (let destexpr0 = (case destexpr_opt of None \<Rightarrow> DummyExpr | Some d \<Rightarrow> d);
          (nm, cnt) = get_new_name (count ps)
      in (ps\<lparr>count := cnt\<rparr>,
          (case init_slots w c nm srcexpr0 destexpr0 translate of
             Inl e \<Rightarrow> Inl e
           | Inr n0 \<Rightarrow>
               (case unit_pass w srcexpr0 destexpr0 (meta n0) (inputs n0) (srcexpr n0) of
                  Inl e \<Rightarrow> Inl e
                | Inr (src_text, units) \<Rightarrow>
                    Inr (n0\<lparr> srcunits := units, srcexpr := src_text,
                             eqn := (if expr_text destexpr0 \<noteq> []
                                     then expr_text destexpr0 else ''out0'') @
                                    '' = '' @
                                    (if translate
                                     then transform_expression w src_text
                                            (invert_dict (inmap n0))
                                     else src_text) \<rparr>)))))"

text \<open>
  Modelled from the spec: \<^verbatim>\<open>ConnectedExprEvaluator(text, scope=self)\<close>, not part of
  the module, "enumerates external references" and "per-reference metadata". The
  references of a text come from the collaborator \<open>refs_of\<close>; the metadata of each one is
  what the scope answers, and the scope is the node, whose \<^verbatim>\<open>get_metadata\<close>
  (\<open>get_metadata_pc\<close>, lines 255 to 264) returns the empty dictionary when no name of a
  piece of metadata is given, and \<^verbatim>\<open>None\<close> otherwise.
\<close>

definition get_metadata_pc :: "string \<Rightarrow> string option \<Rightarrow> metadata option" where
  "get_metadata_pc traitpath metaname = (if metaname = None then Some [] else None)"

definition ConnectedExprEvaluator :: "(string \<Rightarrow> string list) \<Rightarrow> string \<Rightarrow> exprevaluator" where
  "ConnectedExprEvaluator refs_of txt =
     \<lparr> expr_text = txt, refs = refs_of txt,
       get_metadata =
         map (\<lambda>r. (get_varname r,
                    (case get_metadata_pc (get_varname r) None of
                       Some md \<Rightarrow> md
                     | None \<Rightarrow> [])))
           (refs_of txt) \<rparr>"

definition ParamPseudoComponent_init ::
  "world \<Rightarrow> (string \<Rightarrow> string list) \<Rightarrow> process \<Rightarrow> string \<Rightarrow> real option \<Rightarrow> real option
     \<Rightarrow> process \<times> (error + node)" where
  "ParamPseudoComponent_init w refs_of ps target scaler0 adder0 =
     (let scaler = (case scaler0 of None \<Rightarrow> 1 | Some s \<Rightarrow> s);
          adder = (case adder0 of None \<Rightarrow> 0 | Some a \<Rightarrow> a);
          src = (if scaler = 1 \<and> adder = 0 then ''in0''
                 else if scaler = 1 then ''in0+'' @ format_g w adder
                 else if adder = 0 then ''in0*'' @ format_g w scaler
                 else ''(in0+'' @ format_g w adder @ '')*'' @ format_g w scaler);
          srcexpr0 = ConnectedExprEvaluator refs_of src;
          destexpr0 = ConnectedExprEvaluator refs_of target
      in case PseudoComponent_init w ParamPseudoComponent ps srcexpr0 (Some destexpr0) False of
           (ps', Inl e) \<Rightarrow> (ps', Inl e)
         | (ps', Inr n) \<Rightarrow> (ps', Inr (n\<lparr>scaler_adder := Some (scaler, adder)\<rparr>)))"

section \<open>Graph wiring\<close>

text \<open>
  Modelled from the spec: the owning graph's \<^verbatim>\<open>_connect\<close> and \<^verbatim>\<open>disconnect\<close> are its
  "edge-add/edge-remove operations".
\<close>

definition make_connections :: "node \<Rightarrow> process \<Rightarrow> process" where
  "make_connections n ps = ps\<lparr>edges := edges ps @ list_connections n False\<rparr>"

definition remove_connections :: "node \<Rightarrow> process \<Rightarrow> process" where
  "remove_connections n ps =
     ps\<lparr>edges := filter (\<lambda>e. e \<notin> set (list_connections n False)) (edges ps)\<rparr>"

section \<open>A world to run the model in\<close>

text \<open>
  Stand-ins for the collaborators, enough to run the constructors and the methods on
  small inputs: a printer that puts parentheses around a sum or difference under a
  product or quotient, a parser that knows the texts used below, a renamer that parses,
  renames and prints, a unit library that knows metres, centimetres, seconds and degrees
  Celsius and Kelvin, and a
  graph that pushes 1 into \<^verbatim>\<open>in0\<close> and 2 into \<^verbatim>\<open>in1\<close> of the node
  \<^verbatim>\<open>_pseudo_0\<close>, 25 into \<^verbatim>\<open>in0\<close> of the node \<^verbatim>\<open>_pseudo_2\<close>, and has no input
  edge for any other node.
\<close>

fun rename :: "(string \<rightharpoonup> string) \<Rightarrow> expr \<Rightarrow> expr" where
  "rename m (Num x) = Num x"
| "rename m (Name a) = (case m a of None \<Rightarrow> Name a | Some b \<Rightarrow> Name b)"
| "rename m (BinOp l op r) = BinOp (rename m l) op (rename m r)"

fun lower_prec :: "expr \<Rightarrow> operator \<Rightarrow> bool" where
  "lower_prec (BinOp l Add r) Mult = True"
| "lower_prec (BinOp l Add r) Div = True"
| "lower_prec (BinOp l Sub r) Mult = True"
| "lower_prec (BinOp l Sub r) Div = True"
| "lower_prec e op = False"

fun op_text :: "operator \<Rightarrow> string" where
  "op_text Add = ''+''"
| "op_text Sub = ''-''"
| "op_text Mult = ''*''"
| "op_text Div = ''/''"

fun print_tree :: "(real \<Rightarrow> string) \<Rightarrow> expr \<Rightarrow> string" where
  "print_tree fmt (Num x) = fmt x"
| "print_tree fmt (Name a) = a"
| "print_tree fmt (BinOp l op r) =
     (if lower_prec l op then ''('' @ print_tree fmt l @ '')'' else print_tree fmt l) @
     op_text op @
     (if lower_prec r op then ''('' @ print_tree fmt r @ '')'' else print_tree fmt r)"

definition example_format :: "real \<Rightarrow> string" where
  "example_format x =
     (if x = 1 then ''1'' else if x = 2 then ''2'' else if x = 100 then ''100''
      else if x = 273.15 then ''273.15'' else ''?'')"

definition example_parse :: "string \<Rightarrow> error + expr" where
  "example_parse s =
     (if s = ''in0'' then Inr (Name ''in0'')
      else if s = ''a'' then Inr (Name ''a'')
      else if s = ''in0*100'' then Inr (BinOp (Name ''in0'') Mult (Num 100))
      else if s = ''a+b'' then Inr (BinOp (Name ''a'') Add (Name ''b''))
      else if s = ''in0+in1'' then Inr (BinOp (Name ''in0'') Add (Name ''in1''))
      else if s = ''(in0+in1)*100''
        then Inr (BinOp (BinOp (Name ''in0'') Add (Name ''in1'')) Mult (Num 100))
      else if s = ''(in0+1)*2''
        then Inr (BinOp (BinOp (Name ''in0'') Add (Num 1)) Mult (Num 2))
      else if s = ''in0+273.15'' then Inr (BinOp (Name ''in0'') Add (Num 273.15))
      else Inl (SyntaxError s))"

definition example_world :: world where
  "example_world =
     \<lparr> parse = example_parse,
       print_node = print_tree example_format,
       transform_expression =
         (\<lambda>s m. case map_of m s of
                   Some t \<Rightarrow> t
                 | None \<Rightarrow> (case example_parse s of
                              Inl e \<Rightarrow> s
                            | Inr t \<Rightarrow> print_tree example_format (rename (map_of m) t))),
       object_binop =
         (\<lambda>op a b. case (op, a, b) of
                      (Add, PhysicalQuantity x u, PhysicalQuantity y v) \<Rightarrow>
                        (if u = v then Inr (PhysicalQuantity (x + y) u)
                         else Inl (TypeError ''Incompatible units''))
                    | _ \<Rightarrow> Inl (TypeError ''unsupported operand'')),
       conversion_tuple_to =
         (\<lambda>u v. if u = v then Some (1, 0)
                 else if u = ''m'' \<and> v = ''cm'' then Some (100, 0)
                 else if u = ''degC'' \<and> v = ''degK'' then Some (1, 273.15)
                 else None),
       in_units_of = (\<lambda>x u v. if u = v then Inr x else Inl (TypeError ''Incompatible units'')),
       evaluate_gradient = (\<lambda>s env. Inr [(''in0'', 100), (''in1'', 100)]),
       update_inputs =
         (\<lambda>nm. if nm = ''_pseudo_0'' then Inr [(''in0'', PyFloat 1), (''in1'', PyFloat 2)]
                else if nm = ''_pseudo_2'' then Inr [(''in0'', PyFloat 25)]
                else Inr []),
       format_g = example_format \<rparr>"

definition example_refs_of :: "string \<Rightarrow> string list" where
  "example_refs_of s =
     (if s = ''in0'' \<or> s = ''(in0+1)*2'' then [''in0'']
      else if s = ''p+q'' then [''p'', ''q'']
      else [s])"

definition example_process :: process where
  "example_process = \<lparr> count = 0, edges = [] \<rparr>"

text \<open>The source \<^verbatim>\<open>a+b\<close> with both variables in metres.\<close>

definition src_a_plus_b :: exprevaluator where
  "src_a_plus_b =
     \<lparr> expr_text = ''a+b'', refs = [''a'', ''b''],
       get_metadata = [(''a'', [(''units'', ''m'')]), (''b'', [(''units'', ''m'')])] \<rparr>"

text \<open>The source \<^verbatim>\<open>a\<close>, in metres.\<close>

definition src_a :: exprevaluator where
  "src_a =
     \<lparr> expr_text = ''a'', refs = [''a''], get_metadata = [(''a'', [(''units'', ''m'')])] \<rparr>"

text \<open>The destinations \<^verbatim>\<open>c\<close> in centimetres, \<^verbatim>\<open>t\<close> in seconds, \<^verbatim>\<open>p+q\<close>.\<close>

definition dest_c :: exprevaluator where
  "dest_c =
     \<lparr> expr_text = ''c'', refs = [''c''], get_metadata = [(''c'', [(''units'', ''cm'')])] \<rparr>"

definition dest_t :: exprevaluator where
  "dest_t =
     \<lparr> expr_text = ''t'', refs = [''t''], get_metadata = [(''t'', [(''units'', ''s'')])] \<rparr>"

definition dest_p_plus_q :: exprevaluator where
  "dest_p_plus_q =
     \<lparr> expr_text = ''p+q'', refs = [''p'', ''q''],
       get_metadata = [(''p'', []), (''q'', [])] \<rparr>"

text \<open>
  The node that \<^verbatim>\<open>PseudoComponent(parent, 'a+b', 'c')\<close> builds in this world, the same
  node after \<^verbatim>\<open>run\<close>, and the node that
  \<^verbatim>\<open>ParamPseudoComponent(parent, 'x.value', 2.0, 1.0)\<close> builds next.
\<close>

definition example_node :: node where
  "example_node =
     \<lparr> cls = PseudoComponent, name = ''_pseudo_0'',
       inmap = [(''a'', ''in0''), (''b'', ''in1'')],
       meta = [(''in0'', [(''units'', ''m'')]), (''in1'', [(''units'', ''m'')]),
               (''out0'', [(''units'', ''cm'')])],
       valid = False, inputs = [''in0'', ''in1''], outdests = [''c''],
       srcunits = Some ''m'', srcexpr = ''(in0+in1)*100'', destexpr = ''out0'',
       eqn = ''c = (a+b)*100'',
       attrs = [''in0'' \<mapsto> PyNone, ''in1'' \<mapsto> PyNone, ''out0'' \<mapsto> PyNone],
       J = None, scaler_adder = None \<rparr>"

definition example_node_run :: node where
  "example_node_run =
     example_node\<lparr> valid := True,
       attrs := [''in0'' \<mapsto> PyFloat 1, ''in1'' \<mapsto> PyFloat 2, ''out0'' \<mapsto> PyFloat 300] \<rparr>"

definition example_param :: node where
  "example_param =
     \<lparr> cls = ParamPseudoComponent, name = ''_pseudo_1'',
       inmap = [(''in0'', ''in0'')],
       meta = [(''in0'', []), (''out0'', [])],
       valid = False, inputs = [''in0''], outdests = [''x.value''],
       srcunits = None, srcexpr = ''(in0+1)*2'', destexpr = ''out0'',
       eqn = ''x.value = (in0+1)*2'',
       attrs = [''in0'' \<mapsto> PyNone, ''out0'' \<mapsto> PyNone],
       J = None, scaler_adder = Some (2, 1) \<rparr>"

text \<open>
  The node of the example after \<^verbatim>\<open>linearize\<close>; the destination \<^verbatim>\<open>d\<close> without a
  unit; the node that \<^verbatim>\<open>PseudoComponent(parent, DummyExpr(), 'd')\<close> builds, whose only
  source reference is the empty string; the node that
  \<^verbatim>\<open>PseudoComponent(parent, 'a+b')\<close> builds, which has no destination.
\<close>

definition example_node_linearized :: node where
  "example_node_linearized = example_node\<lparr>J := Some [[100, 100]]\<rparr>"

definition dest_d :: exprevaluator where
  "dest_d = \<lparr> expr_text = ''d'', refs = [''d''], get_metadata = [(''d'', [])] \<rparr>"

definition example_blank :: node where
  "example_blank =
     \<lparr> cls = PseudoComponent, name = ''_pseudo_0'',
       inmap = [([], ''in0'')],
       meta = [(''in0'', []), (''out0'', [])],
       valid = False, inputs = [''in0''], outdests = [''d''],
       srcunits = None, srcexpr = ''in0'', destexpr = ''out0'',
       eqn = ''d = '',
       attrs = [''in0'' \<mapsto> PyNone, ''out0'' \<mapsto> PyNone],
       J = None, scaler_adder = None \<rparr>"

definition example_probe :: node where
  "example_probe =
     \<lparr> cls = PseudoComponent, name = ''_pseudo_0'',
       inmap = [(''a'', ''in0''), (''b'', ''in1'')],
       meta = [(''in0'', [(''units'', ''m'')]), (''in1'', [(''units'', ''m'')]),
               (''out0'', [])],
       valid = False, inputs = [''in0'', ''in1''], outdests = [],
       srcunits = None, srcexpr = ''in0+in1'', destexpr = ''out0'',
       eqn = ''out0 = a+b'',
       attrs = [''in0'' \<mapsto> PyNone, ''in1'' \<mapsto> PyNone, ''out0'' \<mapsto> PyNone],
       J = None, scaler_adder = None \<rparr>"

definition example_single :: node where
  "example_single =
     \<lparr> cls = PseudoComponent, name = ''_pseudo_0'',
       inmap = [(''a'', ''in0'')],
       meta = [(''in0'', [(''units'', ''m'')]), (''out0'', [])],
       valid = False, inputs = [''in0''], outdests = [''d''],
       srcunits = None, srcexpr = ''in0'', destexpr = ''out0'',
       eqn = ''d = a'',
       attrs = [''in0'' \<mapsto> PyNone, ''out0'' \<mapsto> PyNone],
       J = None, scaler_adder = None \<rparr>"

text \<open>
  The object as the constructor has it at line 125 for the source \<^verbatim>\<open>a+b\<close> in metres
  and the destination \<^verbatim>\<open>t\<close> in seconds.
\<close>

definition example_slots_t :: node where
  "example_slots_t =
     \<lparr> cls = PseudoComponent, name = ''_pseudo_0'',
       inmap = [(''a'', ''in0''), (''b'', ''in1'')],
       meta = [(''in0'', [(''units'', ''m'')]), (''in1'', [(''units'', ''m'')]),
               (''out0'', [(''units'', ''s'')])],
       valid = False, inputs = [''in0'', ''in1''], outdests = [''t''],
       srcunits = None, srcexpr = ''in0+in1'', destexpr = ''out0'',
       eqn = [],
       attrs = [''in0'' \<mapsto> PyNone, ''in1'' \<mapsto> PyNone, ''out0'' \<mapsto> PyNone],
       J = None, scaler_adder = None \<rparr>"

text \<open>
  The parameter node of the example after \<^verbatim>\<open>set('in0', 3.0)\<close> and
  \<^verbatim>\<open>add_target('y.value')\<close>.
\<close>

definition example_param_in0 :: node where
  "example_param_in0 =
     example_param\<lparr>attrs := [''in0'' \<mapsto> PyFloat 3, ''out0'' \<mapsto> PyNone]\<rparr>"

definition example_param_two_targets :: node where
  "example_param_two_targets = add_target example_param_in0 ''y.value''"

text \<open>
  The source \<^verbatim>\<open>T\<close> in degrees Celsius, the destination \<^verbatim>\<open>K\<close> in Kelvin, and the node
  that \<^verbatim>\<open>PseudoComponent(parent, 'T', 'K')\<close> builds as the third node.
\<close>

definition src_T :: exprevaluator where
  "src_T =
     \<lparr> expr_text = ''T'', refs = [''T''], get_metadata = [(''T'', [(''units'', ''degC'')])] \<rparr>"

definition dest_K :: exprevaluator where
  "dest_K =
     \<lparr> expr_text = ''K'', refs = [''K''], get_metadata = [(''K'', [(''units'', ''degK'')])] \<rparr>"

definition example_temperature :: node where
  "example_temperature =
     \<lparr> cls = PseudoComponent, name = ''_pseudo_2'',
       inmap = [(''T'', ''in0'')],
       meta = [(''in0'', [(''units'', ''degC'')]), (''out0'', [(''units'', ''degK'')])],
       valid = False, inputs = [''in0''], outdests = [''K''],
       srcunits = Some ''degC'', srcexpr = ''in0+273.15'', destexpr = ''out0'',
       eqn = ''K = T+273.15'',
       attrs = [''in0'' \<mapsto> PyNone, ''out0'' \<mapsto> PyNone],
       J = None, scaler_adder = None \<rparr>"

section \<open>Facts about the constructor\<close>

lemma bind_refs_eq:
  "bind_refs i rs (ins, imap, varmap, slots) =
     (ins @ map (\<lambda>k. ''in'' @ string_of_nat k) [i..<i + length rs],
      foldl (\<lambda>m (r, k). AList.update r (''in'' @ string_of_nat k) m) imap
        (zip rs [i..<i + length rs]),
      foldl (\<lambda>m (r, k). AList.update (get_varname r) (''in'' @ string_of_nat k) m) varmap
        (zip rs [i..<i + length rs]),
      foldl (\<lambda>m k. m(''in'' @ string_of_nat k \<mapsto> PyNone)) slots [i..<i + length rs])"
proof (induction rs arbitrary: i ins imap varmap slots)
  case Nil
  then show ?case by simp
next
  case (Cons r rs)
  have "[i..<Suc (i + length rs)] = i # [Suc i..<Suc (i + length rs)]"
    by (rule upt_conv_Cons) simp
  then show ?case
    using Cons.IH by (simp add: Let_def del: upt_Suc)
qed

lemma init_slots_fields:
  assumes "init_slots w c nm s d tr = Inr n0"
  shows "valid n0 = False" and "cls n0 = c" and "J n0 = None" and "name n0 = nm"
    and "inputs n0 = map (\<lambda>k. ''in'' @ string_of_nat k) [0..<length (refs s)]"
    and "inmap n0 = foldl (\<lambda>m (r, k). AList.update r (''in'' @ string_of_nat k) m) []
           (zip (refs s) [0..<length (refs s)])"
    and "outdests n0 = (if expr_text d \<noteq> [] then [expr_text d] else [])"
    and "srcexpr n0 = (if tr then transform_expression w (expr_text s) (inmap n0) else expr_text s)"
    and "destexpr n0 = transform_expression w (expr_text d) [(expr_text d, ''out0'')]"
    and "\<exists>md. map_of (meta n0) ''out0'' = Some md"
    and "\<exists>r0. refs d = [r0]"
  using assms
  by (auto simp: init_slots_def Let_def bind_refs_eq update_conv' length_Suc_conv
      split: if_splits sum.splits list.splits option.splits)

lemma init_Inr:
  assumes "PseudoComponent_init w c ps s dopt tr = (ps', Inr n)"
  obtains n0 src_text units where
    "init_slots w c (''_pseudo_'' @ string_of_nat (count ps)) s
       (case dopt of None \<Rightarrow> DummyExpr | Some d \<Rightarrow> d) tr = Inr n0"
    and "unit_pass w s (case dopt of None \<Rightarrow> DummyExpr | Some d \<Rightarrow> d)
           (meta n0) (inputs n0) (srcexpr n0) = Inr (src_text, units)"
    and "n = n0\<lparr> srcunits := units, srcexpr := src_text,
                  eqn := (if expr_text (case dopt of None \<Rightarrow> DummyExpr | Some d \<Rightarrow> d) \<noteq> []
                          then expr_text (case dopt of None \<Rightarrow> DummyExpr | Some d \<Rightarrow> d)
                          else ''out0'') @ '' = '' @
                         (if tr then transform_expression w src_text (invert_dict (inmap n0))
                          else src_text) \<rparr>"
    and "ps' = ps\<lparr>count := Suc (count ps)\<rparr>"
  using assms
  by (auto simp: PseudoComponent_init_def Let_def get_new_name_def
      split: prod.splits sum.splits)

lemma init_fields:
  assumes "PseudoComponent_init w c ps s dopt tr = (ps', Inr n)"
  shows "valid n = False" and "cls n = c" and "J n = None"
    and "name n = ''_pseudo_'' @ string_of_nat (count ps)"
    and "inputs n = map (\<lambda>k. ''in'' @ string_of_nat k) [0..<length (refs s)]"
    and "inmap n = foldl (\<lambda>m (r, k). AList.update r (''in'' @ string_of_nat k) m) []
           (zip (refs s) [0..<length (refs s)])"
    and "outdests n = (if expr_text (case dopt of None \<Rightarrow> DummyExpr | Some d \<Rightarrow> d) \<noteq> []
                       then [expr_text (case dopt of None \<Rightarrow> DummyExpr | Some d \<Rightarrow> d)] else [])"
    and "ps' = ps\<lparr>count := Suc (count ps)\<rparr>"
proof -
  from assms obtain n0 src_text units where
    a: "init_slots w c (''_pseudo_'' @ string_of_nat (count ps)) s
       (case dopt of None \<Rightarrow> DummyExpr | Some d \<Rightarrow> d) tr = Inr n0"
    and n: "n = n0\<lparr> srcunits := units, srcexpr := src_text,
                  eqn := (if expr_text (case dopt of None \<Rightarrow> DummyExpr | Some d \<Rightarrow> d) \<noteq> []
                          then expr_text (case dopt of None \<Rightarrow> DummyExpr | Some d \<Rightarrow> d)
                          else ''out0'') @ '' = '' @
                         (if tr then transform_expression w src_text (invert_dict (inmap n0))
                          else src_text) \<rparr>"
    and p: "ps' = ps\<lparr>count := Suc (count ps)\<rparr>"
    by (rule init_Inr)
  note f = init_slots_fields [OF a]
  show "valid n = False" using f(1) n by simp
  show "cls n = c" using f(2) n by simp
  show "J n = None" using f(3) n by simp
  show "name n = ''_pseudo_'' @ string_of_nat (count ps)" using f(4) n by simp
  show "inputs n = map (\<lambda>k. ''in'' @ string_of_nat k) [0..<length (refs s)]"
    using f(5) n by simp
  show "inmap n = foldl (\<lambda>m (r, k). AList.update r (''in'' @ string_of_nat k) m) []
           (zip (refs s) [0..<length (refs s)])" using f(6) n by simp
  show "outdests n = (if expr_text (case dopt of None \<Rightarrow> DummyExpr | Some d \<Rightarrow> d) \<noteq> []
                       then [expr_text (case dopt of None \<Rightarrow> DummyExpr | Some d \<Rightarrow> d)] else [])"
    using f(7) n by simp
  show "ps' = ps\<lparr>count := Suc (count ps)\<rparr>" by (rule p)
qed

lemma param_init_Inr:
  assumes "ParamPseudoComponent_init w rf ps target sc ad = (ps', Inr m)"
  obtains n src where
    "PseudoComponent_init w ParamPseudoComponent ps (ConnectedExprEvaluator rf src)
       (Some (ConnectedExprEvaluator rf target)) False = (ps', Inr n)"
    and "m = n\<lparr>scaler_adder := Some (case sc of None \<Rightarrow> 1 | Some x \<Rightarrow> x,
                                       case ad of None \<Rightarrow> 0 | Some a \<Rightarrow> a)\<rparr>"
  using assms
  by (auto simp: ParamPseudoComponent_init_def Let_def split: prod.splits sum.splits)

lemma run_valid: "run w n = Inr n' \<Longrightarrow> valid n'"
  by (auto simp: run_def split: sum.splits if_splits)

lemma update_fresh: "k \<notin> fst ` set al \<Longrightarrow> AList.update k v al = al @ [(k, v)]"
  by (induction al) auto

lemma foldl_update_distinct:
  "distinct rs \<Longrightarrow> set rs \<inter> fst ` set acc = {} \<Longrightarrow> length ks = length rs \<Longrightarrow>
   foldl (\<lambda>m (r, k). AList.update r (f k) m) acc (zip rs ks) = acc @ zip rs (map f ks)"
proof (induction rs arbitrary: acc ks)
  case Nil
  then show ?case by simp
next
  case (Cons r rs)
  from Cons.prems(3) obtain k ks' where ks: "ks = k # ks'" and len: "length ks' = length rs"
    by (cases ks) auto
  have fresh: "r \<notin> fst ` set acc"
    using Cons.prems(2) by auto
  have disj: "set rs \<inter> fst ` set (acc @ [(r, f k)]) = {}"
    using Cons.prems(1,2) by auto
  show ?case
    using Cons.IH [OF _ disj len] Cons.prems(1)
    by (simp add: ks update_fresh [OF fresh])
qed

lemma inmap_distinct:
  assumes "PseudoComponent_init w c ps s dopt tr = (ps', Inr n)" and "distinct (refs s)"
  shows "inmap n = zip (refs s) (map (\<lambda>k. ''in'' @ string_of_nat k) [0..<length (refs s)])"
  using foldl_update_distinct [OF assms(2), of "[]" "[0..<length (refs s)]"
      "\<lambda>k. ''in'' @ string_of_nat k"]
    init_fields(6) [OF assms(1)]
  by simp

lemma lookup_all_Inr:
  "lookup_all grad ks = Inr row \<Longrightarrow>
   length row = length ks \<and> (\<forall>i<length ks. map_of grad (ks ! i) = Some (row ! i))"
proof (induction ks arbitrary: row)
  case Nil
  then show ?case by simp
next
  case (Cons k ks)
  from Cons.prems obtain g gs where g: "map_of grad k = Some g"
    and gs: "lookup_all grad ks = Inr gs" and row: "row = g # gs"
    by (auto split: option.splits sum.splits)
  from Cons.IH [OF gs] show ?case
    by (auto simp: row g nth_Cons split: nat.splits)
qed

lemma unit_pass_None:
  assumes "unit_pass w s d m ins x = Inr (t, None)"
  shows "t = x" and "\<exists>md. map_of m ''out0'' = Some md \<and> map_of md ''units'' = None"
  using assms
  by (auto simp: unit_pass_def split: option.splits sum.splits pyval.splits)

lemma unit_pass_Some:
  assumes "unit_pass w s d m ins x = Inr (t, Some in_units)"
  obtains md out_units tree scaler adder where
    "map_of m ''out0'' = Some md" and "map_of md ''units'' = Some out_units"
    and "parse w x = Inr tree"
    and "conversion_tuple_to w in_units out_units = Some (scaler, adder)"
    and "t = print_node w (scaler_adder_xform tree scaler adder)"
  using assms
  by (auto simp: unit_pass_def unit_xform_def split: option.splits sum.splits pyval.splits)

lemma evaluate_xform:
  assumes "evaluate w env tree = Inr (PyFloat v)"
  shows "evaluate w env (scaler_adder_xform tree scaler adder) =
           Inr (PyFloat ((v + adder) * scaler))"
  using assms by (simp add: scaler_adder_xform_def Let_def)

lemma push_values_fields:
  "push_values n kvs = Inr n' \<Longrightarrow>
   srcexpr n' = srcexpr n \<and> destexpr n' = destexpr n \<and> meta n' = meta n"
proof (induction kvs arbitrary: n)
  case Nil
  then show ?case by simp
next
  case (Cons kv kvs)
  obtain k v where kv: "kv = (k, v)" by (cases kv)
  from Cons.prems obtain n1 where
    s: "set_pc n k v (None :: unit option) = Inr n1" and p: "push_values n1 kvs = Inr n'"
    by (auto simp: kv split: sum.splits)
  have "srcexpr n1 = srcexpr n \<and> destexpr n1 = destexpr n \<and> meta n1 = meta n"
    using s by (auto simp: set_pc_def split: pyval.splits)
  with Cons.IH [OF p] show ?case by simp
qed

lemma refresh_fields:
  "refresh w n = Inr n' \<Longrightarrow>
   srcexpr n' = srcexpr n \<and> destexpr n' = destexpr n \<and> meta n' = meta n"
  by (auto simp: refresh_def split: sum.splits dest: push_values_fields)

lemma init_srcexpr:
  assumes "PseudoComponent_init w c ps s dopt tr = (ps', Inr n)"
  shows "eqn n =
           (if expr_text (case dopt of None \<Rightarrow> DummyExpr | Some d \<Rightarrow> d) \<noteq> []
            then expr_text (case dopt of None \<Rightarrow> DummyExpr | Some d \<Rightarrow> d) else ''out0'') @
           '' = '' @
           (if tr then transform_expression w (srcexpr n) (invert_dict (inmap n))
            else srcexpr n)"
    and "srcunits n = None \<longrightarrow>
            srcexpr n =
              (if tr then transform_expression w (expr_text s) (inmap n) else expr_text s)"
    and "\<forall>in_units. srcunits n = Some in_units \<longrightarrow>
            (\<exists>md out_units tree scaler adder.
               map_of (meta n) ''out0'' = Some md \<and> map_of md ''units'' = Some out_units \<and>
               parse w (if tr then transform_expression w (expr_text s) (inmap n)
                        else expr_text s) = Inr tree \<and>
               conversion_tuple_to w in_units out_units = Some (scaler, adder) \<and>
               srcexpr n = print_node w (scaler_adder_xform tree scaler adder))"
proof -
  define d where "d = (case dopt of None \<Rightarrow> DummyExpr | Some d \<Rightarrow> d)"
  from assms obtain n0 src_text units where
    a: "init_slots w c (''_pseudo_'' @ string_of_nat (count ps)) s d tr = Inr n0"
    and u: "unit_pass w s d (meta n0) (inputs n0) (srcexpr n0) = Inr (src_text, units)"
    and n: "n = n0\<lparr> srcunits := units, srcexpr := src_text,
                  eqn := (if expr_text d \<noteq> [] then expr_text d else ''out0'') @ '' = '' @
                         (if tr then transform_expression w src_text (invert_dict (inmap n0))
                          else src_text) \<rparr>"
    unfolding d_def by (rule init_Inr)
  have f: "srcexpr n = src_text" "inmap n = inmap n0" "meta n = meta n0" "srcunits n = units"
    "eqn n = (if expr_text d \<noteq> [] then expr_text d else ''out0'') @ '' = '' @
             (if tr then transform_expression w src_text (invert_dict (inmap n0)) else src_text)"
    by (simp_all add: n)
  have x: "srcexpr n0 = (if tr then transform_expression w (expr_text s) (inmap n) else expr_text s)"
    using init_slots_fields(8) [OF a] f(2) by simp
  show "eqn n = (if expr_text (case dopt of None \<Rightarrow> DummyExpr | Some d \<Rightarrow> d) \<noteq> []
            then expr_text (case dopt of None \<Rightarrow> DummyExpr | Some d \<Rightarrow> d) else ''out0'') @
           '' = '' @
           (if tr then transform_expression w (srcexpr n) (invert_dict (inmap n))
            else srcexpr n)"
    using f unfolding d_def by simp
  show "srcunits n = None \<longrightarrow>
            srcexpr n =
              (if tr then transform_expression w (expr_text s) (inmap n) else expr_text s)"
  proof
    assume "srcunits n = None"
    with f(4) have "units = None" by simp
    with u have "src_text = srcexpr n0" by (simp add: unit_pass_None(1))
    with x f(1) show "srcexpr n =
        (if tr then transform_expression w (expr_text s) (inmap n) else expr_text s)"
      by simp
  qed
  show "\<forall>in_units. srcunits n = Some in_units \<longrightarrow>
            (\<exists>md out_units tree scaler adder.
               map_of (meta n) ''out0'' = Some md \<and> map_of md ''units'' = Some out_units \<and>
               parse w (if tr then transform_expression w (expr_text s) (inmap n)
                        else expr_text s) = Inr tree \<and>
               conversion_tuple_to w in_units out_units = Some (scaler, adder) \<and>
               srcexpr n = print_node w (scaler_adder_xform tree scaler adder))"
  proof (intro allI impI)
    fix in_units
    assume "srcunits n = Some in_units"
    with f(4) have "units = Some in_units" by simp
    with u have "unit_pass w s d (meta n0) (inputs n0) (srcexpr n0) = Inr (src_text, Some in_units)"
      by simp
    then obtain md out_units tree scaler adder where
      "map_of (meta n0) ''out0'' = Some md" "map_of md ''units'' = Some out_units"
      "parse w (srcexpr n0) = Inr tree"
      "conversion_tuple_to w in_units out_units = Some (scaler, adder)"
      "src_text = print_node w (scaler_adder_xform tree scaler adder)"
      by (rule unit_pass_Some)
    then show "\<exists>md out_units tree scaler adder.
               map_of (meta n) ''out0'' = Some md \<and> map_of md ''units'' = Some out_units \<and>
               parse w (if tr then transform_expression w (expr_text s) (inmap n)
                        else expr_text s) = Inr tree \<and>
               conversion_tuple_to w in_units out_units = Some (scaler, adder) \<and>
               srcexpr n = print_node w (scaler_adder_xform tree scaler adder)"
      using x f(1) f(3) by auto
  qed
qed

lemma keys_foldl_update:
  "fst ` set (foldl (\<lambda>acc (k, v). AList.update k v acc) m xs) = fst ` set m \<union> fst ` set xs"
proof (induction xs arbitrary: m)
  case Nil
  then show ?case by simp
next
  case (Cons x xs)
  obtain k v where x: "x = (k, v)" by (cases x)
  show ?case
    using Cons.IH [of "AList.update k v m"] by (auto simp: x dom_update)
qed

lemma attach_metadata_total:
  "fst ` set m \<subseteq> fst ` set varmap \<Longrightarrow> \<exists>nm. attach_metadata varmap m acc = Inr nm"
proof (induction m arbitrary: acc)
  case Nil
  then show ?case by simp
next
  case (Cons kv m)
  obtain key val where kv: "kv = (key, val)" by (cases kv)
  from Cons.prems have "key \<in> fst ` set varmap" and sub: "fst ` set m \<subseteq> fst ` set varmap"
    by (auto simp: kv)
  then obtain k where k: "map_of varmap key = Some k"
    by (cases "map_of varmap key") (auto simp: map_of_eq_None_iff)
  show ?case
    using Cons.IH [OF sub] by (simp add: kv k)
qed

lemma varmap_keys:
  "length ks = length rs \<Longrightarrow>
   fst ` set (foldl (\<lambda>m (r, k). AList.update (g r) (f k) m) acc (zip rs ks)) =
     fst ` set acc \<union> g ` set rs"
proof (induction rs arbitrary: acc ks)
  case Nil
  then show ?case by simp
next
  case (Cons r rs)
  from Cons.prems obtain k ks' where ks: "ks = k # ks'" and len: "length ks' = length rs"
    by (cases ks) auto
  show ?case
    using Cons.IH [OF len, of "AList.update (g r) (f k) acc"]
    by (auto simp: ks dom_update)
qed

lemma param_init_slots:
  assumes "rf target = [r0]"
  shows "\<exists>n0. init_slots w ParamPseudoComponent nm (ConnectedExprEvaluator rf src)
                (ConnectedExprEvaluator rf target) False = Inr n0 \<and>
              srcexpr n0 = src \<and> map_of (meta n0) ''out0'' = Some []"
proof -
  let ?rs = "rf src"
  let ?varmap = "foldl (\<lambda>m (r, k). AList.update (get_varname r) (''in'' @ string_of_nat k) m) []
                   (zip ?rs [0..<length ?rs])"
  let ?meta0 = "store_metadata [] (ConnectedExprEvaluator rf src)"
  have "fst ` set ?meta0 = get_varname ` set ?rs"
    by (simp add: store_metadata_def ConnectedExprEvaluator_def get_metadata_pc_def
        keys_foldl_update image_image)
  moreover have "fst ` set ?varmap = get_varname ` set ?rs"
    using varmap_keys [of "[0..<length ?rs]" ?rs get_varname "\<lambda>k. ''in'' @ string_of_nat k" "[]"]
    by simp
  ultimately obtain newmeta where nm: "attach_metadata ?varmap ?meta0 [] = Inr newmeta"
    using attach_metadata_total [of ?meta0 ?varmap "[]"] by auto
  have md: "map_of (store_metadata ?meta0 (ConnectedExprEvaluator rf target)) (get_varname r0) =
              Some []"
    using assms
    by (simp add: store_metadata_def ConnectedExprEvaluator_def get_metadata_pc_def update_conv')
  show ?thesis
    using assms nm md
    by (simp add: init_slots_def Let_def bind_refs_eq ConnectedExprEvaluator_def update_conv')
qed

lemma param_init_total:
  assumes "rf target = [r0]"
  shows "\<exists>n. PseudoComponent_init w ParamPseudoComponent ps (ConnectedExprEvaluator rf src)
               (Some (ConnectedExprEvaluator rf target)) False =
               (ps\<lparr>count := Suc (count ps)\<rparr>, Inr n) \<and>
             srcexpr n = src \<and> cls n = ParamPseudoComponent"
proof -
  from param_init_slots [where rf = rf and target = target and ?r0.0 = r0 and w = w
      and nm = "''_pseudo_'' @ string_of_nat (count ps)" and src = src] assms
  obtain n0 where a: "init_slots w ParamPseudoComponent (''_pseudo_'' @ string_of_nat (count ps))
                (ConnectedExprEvaluator rf src) (ConnectedExprEvaluator rf target) False = Inr n0"
    and b: "srcexpr n0 = src" and c: "map_of (meta n0) ''out0'' = Some []"
    by blast
  have u: "unit_pass w (ConnectedExprEvaluator rf src) (ConnectedExprEvaluator rf target)
             (meta n0) (inputs n0) (srcexpr n0) = Inr (src, None)"
    using b c by (simp add: unit_pass_def)
  show ?thesis
    using a u init_slots_fields(2) [OF a]
    by (simp add: PseudoComponent_init_def get_new_name_def Let_def)
qed


lemma push_values_keeps:
  "push_values n kvs = Inr n' \<Longrightarrow>
   cls n' = cls n \<and> name n' = name n \<and> outdests n' = outdests n"
proof (induction kvs arbitrary: n)
  case Nil
  then show ?case by simp
next
  case (Cons kv kvs)
  obtain k v where kv: "kv = (k, v)" by (cases kv)
  from Cons.prems obtain n1 where
    s: "set_pc n k v (None :: unit option) = Inr n1" and p: "push_values n1 kvs = Inr n'"
    by (auto simp: kv split: sum.splits)
  have "cls n1 = cls n \<and> name n1 = name n \<and> outdests n1 = outdests n"
    using s by (auto simp: set_pc_def split: pyval.splits)
  with Cons.IH [OF p] show ?case by simp
qed

lemma refresh_keeps:
  "refresh w n = Inr n' \<Longrightarrow>
   srcexpr n' = srcexpr n \<and> destexpr n' = destexpr n \<and> cls n' = cls n \<and>
   name n' = name n \<and> outdests n' = outdests n"
  using refresh_fields [of w n n']
  by (auto simp: refresh_def split: sum.splits dest: push_values_keeps)

section \<open>The examples, evaluated\<close>

lemma string_of_nat_small:
  "string_of_nat 0 = ''0''" "string_of_nat 1 = ''1''" "string_of_nat (Suc 0) = ''1''"
  "string_of_nat 2 = ''2''"
  by (simp_all add: string_of_nat.simps digit_char_def)

lemmas example_defs =
  PseudoComponent_init_def init_slots_def unit_pass_def unit_xform_def scaler_adder_xform_def
  evaluate_text_def store_metadata_def get_new_name_def get_varname_def invert_dict_def
  quote_def error_message_def Let_def string_of_nat_small
  example_world_def example_parse_def example_format_def example_process_def
  src_a_plus_b_def src_a_def src_T_def dest_c_def dest_t_def dest_d_def dest_K_def
  dest_p_plus_q_def
  DummyExpr_def

lemma example_init:
  "PseudoComponent_init example_world PseudoComponent example_process src_a_plus_b
     (Some dest_c) True = (\<lparr>count = 1, edges = []\<rparr>, Inr example_node)"
  by (simp add: example_defs example_node_def)

lemma example_run: "run example_world example_node = Inr example_node_run"
  by (simp add: run_def refresh_def set_pc_def strip_units_def example_defs example_node_def
      example_node_run_def)

lemma example_param_init:
  "ParamPseudoComponent_init example_world example_refs_of \<lparr>count = 1, edges = []\<rparr> ''x.value''
     (Some 2) (Some 1) = (\<lparr>count = 2, edges = []\<rparr>, Inr example_param)"
  by (simp add: ParamPseudoComponent_init_def ConnectedExprEvaluator_def get_metadata_pc_def
      example_refs_of_def example_defs example_param_def)

lemma example_blank_init:
  "PseudoComponent_init example_world PseudoComponent example_process DummyExpr
     (Some dest_d) True = (\<lparr>count = 1, edges = []\<rparr>, Inr example_blank)"
  by (simp add: example_defs example_blank_def)

lemma example_probe_init:
  "PseudoComponent_init example_world PseudoComponent example_process src_a_plus_b
     None True = (\<lparr>count = 1, edges = []\<rparr>, Inr example_probe)"
  by (simp add: example_defs example_probe_def)

lemma example_single_init:
  "PseudoComponent_init example_world PseudoComponent example_process src_a
     (Some dest_d) True = (\<lparr>count = 1, edges = []\<rparr>, Inr example_single)"
  by (simp add: example_defs example_single_def)

lemma example_linearize:
  "linearize example_world example_node = Inr example_node_linearized"
  by (simp add: linearize_def example_world_def example_node_def example_node_linearized_def)

lemma example_slots_t_init:
  "init_slots example_world PseudoComponent ''_pseudo_0'' src_a_plus_b dest_t True =
     Inr example_slots_t"
  by (simp add: example_defs example_slots_t_def)

lemma example_refresh:
  "refresh example_world example_node =
     Inr (example_node\<lparr>attrs := [''in0'' \<mapsto> PyFloat 1, ''in1'' \<mapsto> PyFloat 2, ''out0'' \<mapsto> PyNone]\<rparr>)"
  by (simp add: refresh_def set_pc_def example_world_def example_node_def fun_upd_twist)

lemma example_param_set:
  "set_pc example_param ''in0'' (PyFloat 3) (None :: unit option) = Inr example_param_in0"
  by (simp add: set_pc_def example_param_def example_param_in0_def fun_upd_twist)

lemma example_temperature_init:
  "PseudoComponent_init example_world PseudoComponent \<lparr>count = 2, edges = []\<rparr> src_T
     (Some dest_K) True = (\<lparr>count = 3, edges = []\<rparr>, Inr example_temperature)"
  by (simp add: example_defs example_temperature_def)

lemma example_temperature_refresh:
  "refresh example_world example_temperature =
     Inr (example_temperature\<lparr>attrs := [''in0'' \<mapsto> PyFloat 25, ''out0'' \<mapsto> PyNone]\<rparr>)"
  by (simp add: refresh_def set_pc_def example_world_def example_temperature_def fun_upd_twist)

section \<open>The validity flag\<close>

text \<open>
  C4. A node that either constructor returns is not valid; a node that \<^verbatim>\<open>run\<close>
  returns is valid; \<^verbatim>\<open>invalidate_deps\<close> and \<^verbatim>\<open>connect\<close> make any node invalid,
  whatever their arguments.
\<close>

theorem validity_flag_lifecycle:
  "(PseudoComponent_init w c ps s dopt tr = (ps', Inr n) \<longrightarrow> \<not> is_valid n) \<and>
   (ParamPseudoComponent_init w rf qs target sc ad = (qs', Inr m) \<longrightarrow> \<not> is_valid m) \<and>
   (run w n = Inr n' \<longrightarrow> is_valid n') \<and>
   \<not> is_valid (invalidate_deps n' varnames force) \<and>
   \<not> is_valid (connect n' src dest)"
proof -
  have "\<not> is_valid n" if "PseudoComponent_init w c ps s dopt tr = (ps', Inr n)"
    using init_fields(1) [OF that] by (simp add: is_valid_def)
  moreover have "\<not> is_valid m"
    if "ParamPseudoComponent_init w rf qs target sc ad = (qs', Inr m)"
  proof -
    from that obtain k src0 where
      k: "PseudoComponent_init w ParamPseudoComponent qs (ConnectedExprEvaluator rf src0)
       (Some (ConnectedExprEvaluator rf target)) False = (qs', Inr k)"
      and m: "m = k\<lparr>scaler_adder := Some (case sc of None \<Rightarrow> 1 | Some x \<Rightarrow> x,
                                       case ad of None \<Rightarrow> 0 | Some a \<Rightarrow> a)\<rparr>"
      by (rule param_init_Inr)
    show ?thesis using init_fields(1) [OF k] m by (simp add: is_valid_def)
  qed
  moreover have "is_valid n'" if "run w n = Inr n'"
    using run_valid [OF that] by (simp add: is_valid_def)
  ultimately show ?thesis
    by (simp add: is_valid_def invalidate_deps_def connect_def)
qed

theorem validity_flag_lifecycle_witness:
  "PseudoComponent_init example_world PseudoComponent example_process src_a_plus_b
     (Some dest_c) True = (\<lparr>count = 1, edges = []\<rparr>, Inr example_node) \<and>
   \<not> is_valid example_node \<and>
   ParamPseudoComponent_init example_world example_refs_of \<lparr>count = 1, edges = []\<rparr>
     ''x.value'' (Some 2) (Some 1) = (\<lparr>count = 2, edges = []\<rparr>, Inr example_param) \<and>
   \<not> is_valid example_param \<and>
   run example_world example_node = Inr example_node_run \<and>
   is_valid example_node_run \<and>
   \<not> is_valid (invalidate_deps example_node_run (Some [''in0'']) True) \<and>
   \<not> is_valid (connect example_node_run ''a'' ''_pseudo_0.in0'')"
  using validity_flag_lifecycle [where w = example_world and c = PseudoComponent
      and ps = example_process and s = src_a_plus_b and dopt = "Some dest_c" and tr = True
      and ps' = "\<lparr>count = 1, edges = []\<rparr>" and n = example_node
      and rf = example_refs_of and target = "''x.value''" and sc = "Some 2" and ad = "Some 1"
      and qs = "\<lparr>count = 1, edges = []\<rparr>" and qs' = "\<lparr>count = 2, edges = []\<rparr>"
      and m = example_param
      and n' = example_node_run and varnames = "Some [''in0'']" and force = True
      and src = "''a''" and dest = "''_pseudo_0.in0''"]
    example_init example_param_init example_run
  by simp

section \<open>Slot access\<close>

text \<open>
  C10. \<^verbatim>\<open>set\<close> without an index always succeeds, and \<^verbatim>\<open>get\<close> without an index then
  returns the plain value of a \<^verbatim>\<open>UnitsAttrWrapper\<close> or of a \<^verbatim>\<open>PhysicalQuantity\<close>, and
  any other value unchanged; what it returns is never unit-tagged.
\<close>

theorem set_unwraps_units:
  "\<exists>n'. set_pc n path val (None :: 'i option) = Inr n' \<and>
        get_pc n' path (None :: 'j option) =
          Inr (case val of
                 UnitsAttrWrapper v u \<Rightarrow> PyFloat v
               | PhysicalQuantity v u \<Rightarrow> PyFloat v
               | _ \<Rightarrow> val) \<and>
        (\<forall>v u. get_pc n' path (None :: 'j option) \<noteq> Inr (PhysicalQuantity v u) \<and>
               get_pc n' path (None :: 'j option) \<noteq> Inr (UnitsAttrWrapper v u))"
  by (cases val) (simp_all add: set_pc_def get_pc_def)

section \<open>Second derivatives\<close>

text \<open>
  C9, as the code has it. With \<^verbatim>\<open>second\<close> and without \<^verbatim>\<open>first\<close>,
  \<^verbatim>\<open>calc_derivatives\<close> raises the error for second derivatives and leaves the node as
  it was. With both, \<^verbatim>\<open>linearize\<close> runs first: when it returns, the same error is
  raised on a node that differs from the old one in the jacobian only; when it raises,
  its exception is the one that leaves the call. With \<^verbatim>\<open>first\<close> alone the call is
  \<^verbatim>\<open>linearize\<close>, and with neither it does nothing.
\<close>

theorem calc_derivatives_second_order:
  "calc_derivatives w n False True =
     Inl (RuntimeError (''2nd derivatives not supported in pseudocomponent '' @ name n), n) \<and>
   (linearize w n = Inr n1 \<longrightarrow>
      calc_derivatives w n True True =
        Inl (RuntimeError (''2nd derivatives not supported in pseudocomponent '' @ name n), n1) \<and>
      n1 = n\<lparr>J := J n1\<rparr>) \<and>
   (linearize w n = Inl x \<longrightarrow> calc_derivatives w n True second = Inl x) \<and>
   calc_derivatives w n True False = linearize w n \<and>
   calc_derivatives w n False False = Inr n"
  by (auto simp: calc_derivatives_def linearize_def split: sum.splits)

theorem calc_derivatives_second_order_witness:
  "linearize example_world example_node = Inr example_node_linearized \<and>
   calc_derivatives example_world example_node True True =
     Inl (RuntimeError ''2nd derivatives not supported in pseudocomponent _pseudo_0'',
          example_node_linearized) \<and>
   linearize (example_world\<lparr>evaluate_gradient := \<lambda>s env. Inl ZeroDivisionError\<rparr>) example_node =
     Inl (ZeroDivisionError, example_node) \<and>
   calc_derivatives (example_world\<lparr>evaluate_gradient := \<lambda>s env. Inl ZeroDivisionError\<rparr>)
     example_node True True = Inl (ZeroDivisionError, example_node)"
proof -
  have a: "linearize example_world example_node = Inr example_node_linearized"
    by (rule example_linearize)
  have b: "linearize (example_world\<lparr>evaluate_gradient := \<lambda>s env. Inl ZeroDivisionError\<rparr>)
             example_node = Inl (ZeroDivisionError, example_node)"
    by (simp add: linearize_def)
  have nm: "name example_node = ''_pseudo_0''"
    by (simp add: example_node_def)
  show ?thesis
    using calc_derivatives_second_order [where w = example_world and n = example_node
        and ?n1.0 = example_node_linearized] a
      calc_derivatives_second_order
        [where w = "example_world\<lparr>evaluate_gradient := \<lambda>s env. Inl ZeroDivisionError\<rparr>"
          and n = example_node and x = "(ZeroDivisionError, example_node)" and second = True] b nm
    by simp
qed

text \<open>
  C9 as stated fails: asked for first and second derivatives, the example node raises
  the error for second derivatives after its jacobian has been assigned.
\<close>

theorem calc_derivatives_changes_jacobian:
  "calc_derivatives example_world example_node True True =
     Inl (RuntimeError ''2nd derivatives not supported in pseudocomponent _pseudo_0'',
          example_node_linearized) \<and>
   J example_node = None \<and> J example_node_linearized = Some [[100, 100]] \<and>
   example_node_linearized \<noteq> example_node"
  by (simp add: calc_derivatives_def linearize_def example_world_def example_node_def
      example_node_linearized_def)

section \<open>The order of the inputs\<close>

text \<open>
  C8. After \<^verbatim>\<open>linearize\<close>, on the constructed node or on any later state of it,
  \<^verbatim>\<open>provideJ\<close> returns the names \<^verbatim>\<open>in0\<close>, \<^verbatim>\<open>in1\<close>, ... in the order of
  \<^verbatim>\<open>srcexpr.refs()\<close>, the tuple \<^verbatim>\<open>('out0',)\<close> and a jacobian of one row whose i-th
  entry is the derivative the evaluator gives for the i-th name; when the references are
  distinct, the i-th reference is the one bound to the i-th name.
\<close>

theorem provideJ_order:
  assumes init: "PseudoComponent_init w c ps s dopt tr = (ps', Inr n)"
    and later: "inputs m = inputs n"
    and lin: "linearize w m = Inr m'"
  shows "\<exists>grad row.
           evaluate_gradient w (srcexpr m) (attrs m) = Inr grad \<and>
           provideJ m' =
             Inr (map (\<lambda>i. ''in'' @ string_of_nat i) [0..<length (refs s)], [''out0''], [row]) \<and>
           length row = length (refs s) \<and>
           (\<forall>i<length (refs s). map_of grad (''in'' @ string_of_nat i) = Some (row ! i)) \<and>
           (distinct (refs s) \<longrightarrow>
              (\<forall>i<length (refs s).
                 map_of (inmap n) (refs s ! i) = Some (''in'' @ string_of_nat i)))"
proof -
  have ins: "inputs m = map (\<lambda>i. ''in'' @ string_of_nat i) [0..<length (refs s)]"
    using init_fields(5) [OF init] later by simp
  from lin obtain grad row where
    g: "evaluate_gradient w (srcexpr m) (attrs m) = Inr grad"
    and l: "lookup_all grad (inputs m) = Inr row"
    and m': "m' = m\<lparr>J := Some [row]\<rparr>"
    by (auto simp: linearize_def split: sum.splits)
  have len: "length row = length (refs s)"
    using lookup_all_Inr [OF l] ins by simp
  have ent: "\<forall>i<length (refs s). map_of grad (''in'' @ string_of_nat i) = Some (row ! i)"
    using lookup_all_Inr [OF l] ins by simp
  have pj: "provideJ m' =
      Inr (map (\<lambda>i. ''in'' @ string_of_nat i) [0..<length (refs s)], [''out0''], [row])"
    using ins by (simp add: provideJ_def m')
  have im: "\<forall>i<length (refs s). map_of (inmap n) (refs s ! i) = Some (''in'' @ string_of_nat i)"
    if di: "distinct (refs s)"
  proof (intro allI impI)
    fix i
    assume i: "i < length (refs s)"
    have "map_of (zip (refs s) (map (\<lambda>k. ''in'' @ string_of_nat k) [0..<length (refs s)]))
            (refs s ! i) = Some (map (\<lambda>k. ''in'' @ string_of_nat k) [0..<length (refs s)] ! i)"
      by (rule map_of_zip_nth) (use di i in simp_all)
    then show "map_of (inmap n) (refs s ! i) = Some (''in'' @ string_of_nat i)"
      using i by (simp add: inmap_distinct [OF init di])
  qed
  show ?thesis
    using g pj len ent im by blast
qed

theorem provideJ_order_witness:
  "PseudoComponent_init example_world PseudoComponent example_process src_a_plus_b
     (Some dest_c) True = (\<lparr>count = 1, edges = []\<rparr>, Inr example_node) \<and>
   inputs example_node_run = inputs example_node \<and>
   linearize example_world example_node_run =
     Inr (example_node_run\<lparr>J := Some [[100, 100]]\<rparr>) \<and>
   distinct (refs src_a_plus_b) \<and>
   (\<exists>row. provideJ (example_node_run\<lparr>J := Some [[100, 100]]\<rparr>) =
            Inr ([''in0'', ''in1''], [''out0''], [row]) \<and>
          length row = 2 \<and> row ! 0 = 100 \<and> row ! 1 = 100) \<and>
   map_of (inmap example_node) ''a'' = Some ''in0'' \<and>
   map_of (inmap example_node) ''b'' = Some ''in1''"
proof -
  have di: "distinct (refs src_a_plus_b)"
    by (simp add: src_a_plus_b_def)
  have len: "length (refs src_a_plus_b) = Suc (Suc 0)" "refs src_a_plus_b ! 0 = ''a''"
    "refs src_a_plus_b ! Suc 0 = ''b''"
    by (simp_all add: src_a_plus_b_def)
  have later: "inputs example_node_run = inputs example_node"
    by (simp add: example_node_run_def)
  have lin: "linearize example_world example_node_run =
               Inr (example_node_run\<lparr>J := Some [[100, 100]]\<rparr>)"
    by (simp add: linearize_def example_world_def example_node_run_def example_node_def)
  have g: "evaluate_gradient example_world (srcexpr example_node_run) (attrs example_node_run) =
             Inr [(''in0'', 100), (''in1'', 100)]"
    by (simp add: example_world_def)
  from provideJ_order [OF example_init later lin]
  obtain grad row where
    a: "evaluate_gradient example_world (srcexpr example_node_run) (attrs example_node_run) =
          Inr grad"
    and b: "provideJ (example_node_run\<lparr>J := Some [[100, 100]]\<rparr>) =
          Inr (map (\<lambda>i. ''in'' @ string_of_nat i) [0..<length (refs src_a_plus_b)],
               [''out0''], [row])"
    and c: "length row = length (refs src_a_plus_b)"
    and d: "\<forall>i<length (refs src_a_plus_b).
              map_of grad (''in'' @ string_of_nat i) = Some (row ! i)"
    and e: "distinct (refs src_a_plus_b) \<longrightarrow>
              (\<forall>i<length (refs src_a_plus_b).
                 map_of (inmap example_node) (refs src_a_plus_b ! i) =
                   Some (''in'' @ string_of_nat i))"
    by blast
  have grad: "grad = [(''in0'', 100), (''in1'', 100)]"
    using a g by simp
  have r0: "row ! 0 = 100"
    using d [rule_format, of 0] by (simp add: len grad string_of_nat_small)
  have r1: "row ! 1 = 100"
    using d [rule_format, of "Suc 0"] by (simp add: len grad string_of_nat_small)
  have ia: "map_of (inmap example_node) ''a'' = Some ''in0''"
    using e [rule_format, OF di, of 0] by (simp add: len string_of_nat_small)
  have ib: "map_of (inmap example_node) ''b'' = Some ''in1''"
    using e [rule_format, OF di, of "Suc 0"] by (simp add: len string_of_nat_small)
  have pj: "provideJ (example_node_run\<lparr>J := Some [[100, 100]]\<rparr>) =
              Inr ([''in0'', ''in1''], [''out0''], [row])"
    using b by (simp add: len string_of_nat_small)
  show ?thesis
    using example_init later lin di pj c r0 r1 ia ib by (simp add: len)
qed

section \<open>The hidden view\<close>

text \<open>
  C5, as the code has it. The hidden view of a \<^verbatim>\<open>ParamPseudoComponent\<close> is empty; that
  of a \<^verbatim>\<open>PseudoComponent\<close> without an output target is empty; with an output target
  it is one pair (source reference, first output target) for every source reference
  that is not the empty string. For a node just constructed from distinct references
  these are the pairs of the non-empty references with the destination text, and with
  one non-empty reference the view is the single edge.
\<close>

theorem hidden_connections:
  "(cls n = ParamPseudoComponent \<longrightarrow> list_connections n True = []) \<and>
   (cls n = PseudoComponent \<and> outdests n = [] \<longrightarrow> list_connections n True = []) \<and>
   (cls n = PseudoComponent \<and> outdests n = dest # rest \<longrightarrow>
      list_connections n True =
        map (\<lambda>src. (src, dest)) (filter (\<lambda>src. src \<noteq> []) (map fst (inmap n)))) \<and>
   (PseudoComponent_init w PseudoComponent ps s (Some d) tr = (ps', Inr m) \<and>
    distinct (refs s) \<and> expr_text d \<noteq> [] \<longrightarrow>
      list_connections m True =
        map (\<lambda>src. (src, expr_text d)) (filter (\<lambda>src. src \<noteq> []) (refs s))) \<and>
   (PseudoComponent_init w PseudoComponent ps s (Some d) tr = (ps', Inr m) \<and>
    refs s = [r] \<and> r \<noteq> [] \<and> expr_text d \<noteq> [] \<longrightarrow>
      list_connections m True = [(r, expr_text d)])"
proof -
  have fresh: "list_connections m True =
        map (\<lambda>src. (src, expr_text d)) (filter (\<lambda>src. src \<noteq> []) (refs s))"
    if i: "PseudoComponent_init w PseudoComponent ps s (Some d) tr = (ps', Inr m)"
      and di: "distinct (refs s)" and t: "expr_text d \<noteq> []"
  proof -
    have "map fst (inmap m) = refs s"
      by (simp add: inmap_distinct [OF i di])
    then show ?thesis
      using init_fields(2) [OF i] init_fields(7) [OF i] t
      by (simp add: list_connections_def)
  qed
  have single: "list_connections m True = [(r, expr_text d)]"
    if i: "PseudoComponent_init w PseudoComponent ps s (Some d) tr = (ps', Inr m)"
      and r: "refs s = [r]" "r \<noteq> []" and t: "expr_text d \<noteq> []"
    using fresh [OF i _ t] r by simp
  show ?thesis
    using fresh single by (simp add: list_connections_def)
qed

theorem hidden_connections_witness:
  "cls example_param = ParamPseudoComponent \<and> list_connections example_param True = [] \<and>
   cls example_probe = PseudoComponent \<and> outdests example_probe = [] \<and>
   list_connections example_probe True = [] \<and>
   cls example_node = PseudoComponent \<and> outdests example_node = ''c'' # [] \<and>
   list_connections example_node True = [(''a'', ''c''), (''b'', ''c'')] \<and>
   PseudoComponent_init example_world PseudoComponent example_process src_a_plus_b
     (Some dest_c) True = (\<lparr>count = 1, edges = []\<rparr>, Inr example_node) \<and>
   distinct (refs src_a_plus_b) \<and> expr_text dest_c \<noteq> [] \<and>
   PseudoComponent_init example_world PseudoComponent example_process src_a
     (Some dest_d) True = (\<lparr>count = 1, edges = []\<rparr>, Inr example_single) \<and>
   refs src_a = [''a''] \<and> ''a'' \<noteq> [] \<and> expr_text dest_d \<noteq> [] \<and>
   list_connections example_single True = [(''a'', ''d'')]"
proof -
  have p: "cls example_param = ParamPseudoComponent"
    by (simp add: example_param_def)
  have q: "cls example_probe = PseudoComponent \<and> outdests example_probe = []"
    by (simp add: example_probe_def)
  have e: "cls example_node = PseudoComponent \<and> outdests example_node = ''c'' # []"
    by (simp add: example_node_def)
  have im: "map fst (inmap example_node) = [''a'', ''b'']"
    by (simp add: example_node_def)
  have d: "distinct (refs src_a_plus_b) \<and> expr_text dest_c \<noteq> []"
    by (simp add: src_a_plus_b_def dest_c_def)
  have r: "refs src_a = [''a''] \<and> ''a'' \<noteq> [] \<and> expr_text dest_d \<noteq> []"
    by (simp add: src_a_def dest_d_def)
  have dd: "expr_text dest_d = ''d''"
    by (simp add: dest_d_def)
  have 1: "list_connections example_param True = []"
    using hidden_connections [where n = example_param] p by blast
  have 2: "list_connections example_probe True = []"
    using hidden_connections [where n = example_probe] q by blast
  have 3: "list_connections example_node True =
             map (\<lambda>src. (src, ''c'')) (filter (\<lambda>src. src \<noteq> []) (map fst (inmap example_node)))"
    using hidden_connections [where n = example_node and dest = "''c''" and rest = "[]"] e
    by blast
  have 4: "list_connections example_node True =
             map (\<lambda>src. (src, expr_text dest_c)) (filter (\<lambda>src. src \<noteq> []) (refs src_a_plus_b))"
    using hidden_connections [where w = example_world and ps = example_process
        and s = src_a_plus_b and d = dest_c and tr = True
        and ps' = "\<lparr>count = 1, edges = []\<rparr>" and m = example_node] d example_init
    by blast
  have 5: "list_connections example_single True = [(''a'', expr_text dest_d)]"
    using hidden_connections [where w = example_world and ps = example_process and s = src_a
        and d = dest_d and tr = True and ps' = "\<lparr>count = 1, edges = []\<rparr>"
        and m = example_single and r = "''a''"] r example_single_init
    by blast
  show ?thesis
    using 1 2 3 4 5 p q e im d r dd example_init example_single_init by simp
qed

text \<open>
  C5 as stated fails: a node with exactly one input and one output target whose source
  reference is the empty string has an empty hidden view.
\<close>

theorem hidden_connections_empty_source:
  "PseudoComponent_init example_world PseudoComponent example_process DummyExpr
     (Some dest_d) True = (\<lparr>count = 1, edges = []\<rparr>, Inr example_blank) \<and>
   inputs example_blank = [''in0''] \<and> inmap example_blank = [([], ''in0'')] \<and>
   outdests example_blank = [''d''] \<and>
   list_connections example_blank True = [] \<and>
   list_connections example_blank True \<noteq> [([], ''d'')]"
  using example_blank_init
  by (simp add: list_connections_def example_blank_def)

section \<open>Rejected destinations\<close>

text \<open>
  C3. A destination with more than one reference makes the constructor raise
  \<^verbatim>\<open>RuntimeError\<close> ("output of PseudoComponent must reference only one variable"); no
  node is returned and the edges of the owning graph are as they were.
\<close>

theorem multi_variable_destination_rejected:
  assumes "1 < length (refs d)"
  shows "snd (PseudoComponent_init w c ps s (Some d) tr) =
           Inl (RuntimeError ''output of PseudoComponent must reference only one variable'') \<and>
         edges (fst (PseudoComponent_init w c ps s (Some d) tr)) = edges ps"
  using assms
  by (auto simp: PseudoComponent_init_def init_slots_def Let_def split: prod.splits)

theorem multi_variable_destination_rejected_witness:
  "1 < length (refs dest_p_plus_q) \<and>
   snd (PseudoComponent_init example_world PseudoComponent example_process src_a_plus_b
          (Some dest_p_plus_q) True) =
     Inl (RuntimeError ''output of PseudoComponent must reference only one variable'') \<and>
   edges (fst (PseudoComponent_init example_world PseudoComponent example_process src_a_plus_b
          (Some dest_p_plus_q) True)) = edges example_process"
proof -
  have h: "1 < length (refs dest_p_plus_q)"
    by (simp add: dest_p_plus_q_def)
  show ?thesis
    using h multi_variable_destination_rejected [OF h] by simp
qed

section \<open>Incompatible units\<close>

text \<open>
  C2. When the constructor reaches the unit pass, the destination declares the unit
  \<open>out_units\<close>, the trial evaluation of the source yields a quantity of unit
  \<open>in_units\<close> and the unit library has no conversion from \<open>in_units\<close> to
  \<open>out_units\<close>, the constructor raises \<^verbatim>\<open>TypeError\<close> with the message
  \<^verbatim>\<open>Can't connect '<source text>' to '<destination text>': units '<in_units>' are
  incompatible with assigning units of '<out_units>'\<close>; no node is returned and the
  edges of the owning graph are as they were.
\<close>

theorem incompatible_units_rejected:
  assumes slots: "init_slots w c (''_pseudo_'' @ string_of_nat (count ps)) s d tr = Inr n0"
    and declared: "map_of (meta n0) ''out0'' = Some md" "map_of md ''units'' = Some out_units"
    and trial: "trial_values (meta n0) (inputs n0) = Inr tmpdict"
    and inferred:
      "evaluate_text w (map_of tmpdict) (srcexpr n0) = Inr (PhysicalQuantity v in_units)"
    and incompatible: "conversion_tuple_to w in_units out_units = None"
  shows "snd (PseudoComponent_init w c ps s (Some d) tr) =
           Inl (TypeError
                 (''Can'' @ quote @ ''t connect '' @ quote @ expr_text s @ quote @ '' to '' @
                  quote @ expr_text d @ quote @ '': units '' @ quote @ in_units @ quote @
                  '' are incompatible with assigning units of '' @ quote @ out_units @ quote)) \<and>
         edges (fst (PseudoComponent_init w c ps s (Some d) tr)) = edges ps"
proof -
  from inferred obtain tree where t: "parse w (srcexpr n0) = Inr tree"
    by (auto simp: evaluate_text_def split: sum.splits)
  have "unit_pass w s d (meta n0) (inputs n0) (srcexpr n0) =
          Inl (TypeError
                 (''Can'' @ quote @ ''t connect '' @ quote @ expr_text s @ quote @ '' to '' @
                  quote @ expr_text d @ quote @ '': units '' @ quote @ in_units @ quote @
                  '' are incompatible with assigning units of '' @ quote @ out_units @ quote))"
    using declared trial inferred incompatible t
    by (simp add: unit_pass_def unit_xform_def error_message_def)
  then show ?thesis
    using slots by (simp add: PseudoComponent_init_def get_new_name_def Let_def)
qed

theorem incompatible_units_rejected_witness:
  "init_slots example_world PseudoComponent (''_pseudo_'' @ string_of_nat (count example_process))
     src_a_plus_b dest_t True = Inr example_slots_t \<and>
   map_of (meta example_slots_t) ''out0'' = Some [(''units'', ''s'')] \<and>
   map_of [(''units'', ''s'')] ''units'' = Some ''s'' \<and>
   trial_values (meta example_slots_t) (inputs example_slots_t) =
     Inr [(''in0'', PhysicalQuantity 0 ''m''), (''in1'', PhysicalQuantity 0 ''m'')] \<and>
   evaluate_text example_world
     (map_of [(''in0'', PhysicalQuantity 0 ''m''), (''in1'', PhysicalQuantity 0 ''m'')])
     (srcexpr example_slots_t) = Inr (PhysicalQuantity 0 ''m'') \<and>
   conversion_tuple_to example_world ''m'' ''s'' = None \<and>
   snd (PseudoComponent_init example_world PseudoComponent example_process src_a_plus_b
          (Some dest_t) True) =
     Inl (TypeError (''Can'' @ quote @ ''t connect '' @ quote @ ''a+b'' @ quote @ '' to '' @
            quote @ ''t'' @ quote @ '': units '' @ quote @ ''m'' @ quote @
            '' are incompatible with assigning units of '' @ quote @ ''s'' @ quote)) \<and>
   edges (fst (PseudoComponent_init example_world PseudoComponent example_process src_a_plus_b
          (Some dest_t) True)) = edges example_process"
proof -
  have a: "init_slots example_world PseudoComponent
             (''_pseudo_'' @ string_of_nat (count example_process))
             src_a_plus_b dest_t True = Inr example_slots_t"
    using example_slots_t_init by (simp add: example_process_def string_of_nat_small)
  have b: "map_of (meta example_slots_t) ''out0'' = Some [(''units'', ''s'')]"
    by (simp add: example_slots_t_def)
  have c: "map_of [(''units'', ''s'')] ''units'' = Some ''s''"
    by simp
  have d: "trial_values (meta example_slots_t) (inputs example_slots_t) =
     Inr [(''in0'', PhysicalQuantity 0 ''m''), (''in1'', PhysicalQuantity 0 ''m'')]"
    by (simp add: example_slots_t_def)
  have e: "evaluate_text example_world
     (map_of [(''in0'', PhysicalQuantity 0 ''m''), (''in1'', PhysicalQuantity 0 ''m'')])
     (srcexpr example_slots_t) = Inr (PhysicalQuantity 0 ''m'')"
    by (simp add: example_slots_t_def evaluate_text_def example_world_def example_parse_def)
  have f: "conversion_tuple_to example_world ''m'' ''s'' = None"
    by (simp add: example_world_def)
  have t: "expr_text src_a_plus_b = ''a+b''" "expr_text dest_t = ''t''"
    by (simp_all add: src_a_plus_b_def dest_t_def)
  show ?thesis
    using incompatible_units_rejected [OF a b c d e f] a b c d e f
    by (simp only: t simp_thms)
qed

section \<open>The equation text\<close>

text \<open>
  C6, as the code has it. The equation text is the destination text (\<^verbatim>\<open>out0\<close> when
  that text is empty), \<^verbatim>\<open> = \<close>, and the text of the source expression the node keeps,
  with the slot names mapped back by the inverted reference map when the constructor
  anonymized and unchanged when it did not. The text the node keeps is the transformed
  source when the destination declares no unit, and the print of the unit-rewritten tree
  when it declares one.
\<close>

theorem equation_text:
  assumes "PseudoComponent_init w c ps s dopt tr = (ps', Inr n)"
  shows "eqn n =
           (if expr_text (case dopt of None \<Rightarrow> DummyExpr | Some d \<Rightarrow> d) \<noteq> []
            then expr_text (case dopt of None \<Rightarrow> DummyExpr | Some d \<Rightarrow> d) else ''out0'') @
           '' = '' @
           (if tr then transform_expression w (srcexpr n) (invert_dict (inmap n))
            else srcexpr n) \<and>
         (srcunits n = None \<longrightarrow>
            srcexpr n =
              (if tr then transform_expression w (expr_text s) (inmap n) else expr_text s)) \<and>
         (\<forall>in_units. srcunits n = Some in_units \<longrightarrow>
            (\<exists>md out_units tree scaler adder.
               map_of (meta n) ''out0'' = Some md \<and> map_of md ''units'' = Some out_units \<and>
               parse w (if tr then transform_expression w (expr_text s) (inmap n)
                        else expr_text s) = Inr tree \<and>
               conversion_tuple_to w in_units out_units = Some (scaler, adder) \<and>
               srcexpr n = print_node w (scaler_adder_xform tree scaler adder)))"
  using init_srcexpr [OF assms] by (intro conjI)

theorem equation_text_witness:
  "PseudoComponent_init example_world PseudoComponent example_process src_a_plus_b
     (Some dest_c) True = (\<lparr>count = 1, edges = []\<rparr>, Inr example_node) \<and>
   srcunits example_node = Some ''m'' \<and>
   eqn example_node =
     ''c = '' @ transform_expression example_world (srcexpr example_node)
                (invert_dict (inmap example_node)) \<and>
   (\<exists>tree scaler adder.
      parse example_world ''in0+in1'' = Inr tree \<and>
      conversion_tuple_to example_world ''m'' ''cm'' = Some (scaler, adder) \<and>
      srcexpr example_node = print_node example_world (scaler_adder_xform tree scaler adder)) \<and>
   PseudoComponent_init example_world PseudoComponent example_process src_a
     (Some dest_d) True = (\<lparr>count = 1, edges = []\<rparr>, Inr example_single) \<and>
   srcunits example_single = None \<and>
   srcexpr example_single = ''in0'' \<and>
   eqn example_single =
     ''d = '' @ transform_expression example_world (srcexpr example_single)
                (invert_dict (inmap example_single))"
proof -
  have u: "srcunits example_node = Some ''m''" "srcunits example_single = None"
    by (simp_all add: example_node_def example_single_def)
  have t: "expr_text dest_c = ''c''" "expr_text dest_d = ''d''" "expr_text src_a = ''a''"
    "expr_text src_a_plus_b = ''a+b''"
    by (simp_all add: dest_c_def dest_d_def src_a_def src_a_plus_b_def)
  have x: "transform_expression example_world ''a+b'' (inmap example_node) = ''in0+in1''"
    "transform_expression example_world ''a'' (inmap example_single) = ''in0''"
    by (simp_all add: example_world_def example_parse_def example_node_def example_single_def)
  note A = equation_text [OF example_init]
  note B = equation_text [OF example_single_init]
  have A1: "eqn example_node =
     ''c = '' @ transform_expression example_world (srcexpr example_node)
                (invert_dict (inmap example_node))"
    using A by (simp add: t)
  from A u(1) obtain md out_units tree scaler adder where
    m: "map_of (meta example_node) ''out0'' = Some md" "map_of md ''units'' = Some out_units"
    and p: "parse example_world ''in0+in1'' = Inr tree"
    and c: "conversion_tuple_to example_world ''m'' out_units = Some (scaler, adder)"
    and e: "srcexpr example_node = print_node example_world (scaler_adder_xform tree scaler adder)"
    by (auto simp: t x)
  have "out_units = ''cm''"
    using m by (auto simp: example_node_def)
  with p c e have A3: "\<exists>tree scaler adder.
      parse example_world ''in0+in1'' = Inr tree \<and>
      conversion_tuple_to example_world ''m'' ''cm'' = Some (scaler, adder) \<and>
      srcexpr example_node = print_node example_world (scaler_adder_xform tree scaler adder)"
    by blast
  have B1: "eqn example_single =
     ''d = '' @ transform_expression example_world (srcexpr example_single)
                (invert_dict (inmap example_single))"
    using B by (simp add: t)
  have B2: "srcexpr example_single = ''in0''"
    using B u(2) by (simp add: t x)
  show ?thesis
    using example_init example_single_init u A1 A3 B1 B2 by simp
qed

text \<open>
  C6 as stated fails: for the source \<^verbatim>\<open>a+b\<close> in metres and the destination \<^verbatim>\<open>c\<close> in
  centimetres the equation text contains the conversion factor.
\<close>

theorem equation_text_shows_unit_rewrite:
  "PseudoComponent_init example_world PseudoComponent example_process src_a_plus_b
     (Some dest_c) True = (\<lparr>count = 1, edges = []\<rparr>, Inr example_node) \<and>
   expr_text dest_c = ''c'' \<and> expr_text src_a_plus_b = ''a+b'' \<and>
   eqn example_node = ''c = (a+b)*100'' \<and>
   eqn example_node \<noteq> expr_text dest_c @ '' = '' @ expr_text src_a_plus_b"
  using example_init
  by (simp add: example_node_def dest_c_def src_a_plus_b_def)

section \<open>The unit conversion at run time\<close>

text \<open>
  C1. Let the constructor return a node for a destination that declares the unit
  \<open>out_units\<close>, with the inferred unit \<open>in_units\<close>, and let the unit library convert
  \<open>in_units\<close> to \<open>out_units\<close> by (\<open>scaler\<close>, \<open>adder\<close>). Let \<open>tree\<close> be the parse of
  the source text, let the parser read the print of the rewritten tree back as that
  tree, and let the source evaluate in plain arithmetic to the number \<open>v\<close> on the
  refreshed inputs. Then the node keeps the print of the rewritten tree, the rewritten
  tree has no add-node when the adder is 0 and no multiply-node when the scaler is 1,
  \<^verbatim>\<open>run\<close> returns, and the destination slot then holds \<open>(v + adder) * scaler\<close>.
\<close>

theorem run_applies_unit_conversion:
  assumes init: "PseudoComponent_init w c ps s (Some d) tr = (ps', Inr n)"
    and declared: "map_of (meta n) ''out0'' = Some md" "map_of md ''units'' = Some out_units"
    and inferred: "srcunits n = Some in_units"
    and conversion: "conversion_tuple_to w in_units out_units = Some (scaler, adder)"
    and source:
      "parse w (if tr then transform_expression w (expr_text s) (inmap n) else expr_text s) =
         Inr tree"
    and round_trip:
      "parse w (print_node w (scaler_adder_xform tree scaler adder)) =
         Inr (scaler_adder_xform tree scaler adder)"
    and refreshed: "refresh w n = Inr n1"
    and plain: "evaluate w (attrs n1) tree = Inr (PyFloat v)"
  shows "srcexpr n = print_node w (scaler_adder_xform tree scaler adder) \<and>
         scaler_adder_xform tree scaler adder =
           (if adder = 0
            then (if scaler = 1 then tree else BinOp tree Mult (Num scaler))
            else (if scaler = 1 then BinOp tree Add (Num adder)
                  else BinOp (BinOp tree Add (Num adder)) Mult (Num scaler))) \<and>
         (\<exists>n2. run w n = Inr n2 \<and>
               get_pc n2 (destexpr n) (None :: unit option) =
                 Inr (PyFloat ((v + adder) * scaler)))"
proof -
  from init_srcexpr(3) [OF init] inferred obtain md' out_units' tree' scaler' adder' where
    "map_of (meta n) ''out0'' = Some md'" "map_of md' ''units'' = Some out_units'"
    "parse w (if tr then transform_expression w (expr_text s) (inmap n) else expr_text s) =
       Inr tree'"
    "conversion_tuple_to w in_units out_units' = Some (scaler', adder')"
    "srcexpr n = print_node w (scaler_adder_xform tree' scaler' adder')"
    by blast
  with declared conversion source
  have src: "srcexpr n = print_node w (scaler_adder_xform tree scaler adder)"
    by simp
  have nv: "\<not> valid n"
    using init_fields(1) [OF init] by simp
  note rf = refresh_fields [OF refreshed]
  have ev: "evaluate_text w (attrs n1) (srcexpr n1) = Inr (PyFloat ((v + adder) * scaler))"
    using rf src round_trip evaluate_xform [OF plain]
    by (simp add: evaluate_text_def)
  have "run w n =
          Inr (n1\<lparr>attrs := (attrs n1)(destexpr n \<mapsto> PyFloat ((v + adder) * scaler)),
                  valid := True\<rparr>)"
    using nv refreshed ev rf
    by (simp add: run_def strip_units_def set_pc_def)
  moreover have "scaler_adder_xform tree scaler adder =
           (if adder = 0
            then (if scaler = 1 then tree else BinOp tree Mult (Num scaler))
            else (if scaler = 1 then BinOp tree Add (Num adder)
                  else BinOp (BinOp tree Add (Num adder)) Mult (Num scaler)))"
    by (simp add: scaler_adder_xform_def)
  ultimately show ?thesis
    using src by (simp add: get_pc_def)
qed


theorem run_applies_unit_conversion_witness:
  "PseudoComponent_init example_world PseudoComponent example_process src_a_plus_b
     (Some dest_c) True = (\<lparr>count = 1, edges = []\<rparr>, Inr example_node) \<and>
   map_of (meta example_node) ''out0'' = Some [(''units'', ''cm'')] \<and>
   map_of [(''units'', ''cm'')] ''units'' = Some ''cm'' \<and>
   srcunits example_node = Some ''m'' \<and>
   conversion_tuple_to example_world ''m'' ''cm'' = Some (100, 0) \<and>
   parse example_world
     (if True then transform_expression example_world (expr_text src_a_plus_b) (inmap example_node)
      else expr_text src_a_plus_b) = Inr (BinOp (Name ''in0'') Add (Name ''in1'')) \<and>
   parse example_world
     (print_node example_world (scaler_adder_xform (BinOp (Name ''in0'') Add (Name ''in1'')) 100 0)) =
     Inr (scaler_adder_xform (BinOp (Name ''in0'') Add (Name ''in1'')) 100 0) \<and>
   refresh example_world example_node =
     Inr (example_node\<lparr>attrs := [''in0'' \<mapsto> PyFloat 1, ''in1'' \<mapsto> PyFloat 2,
                                      ''out0'' \<mapsto> PyNone]\<rparr>) \<and>
   evaluate example_world [''in0'' \<mapsto> PyFloat 1, ''in1'' \<mapsto> PyFloat 2, ''out0'' \<mapsto> PyNone]
     (BinOp (Name ''in0'') Add (Name ''in1'')) = Inr (PyFloat 3) \<and>
   srcexpr example_node = ''(in0+in1)*100'' \<and>
   (\<exists>n2. run example_world example_node = Inr n2 \<and>
         get_pc n2 ''out0'' (None :: unit option) = Inr (PyFloat 300)) \<and>
   PseudoComponent_init example_world PseudoComponent \<lparr>count = 2, edges = []\<rparr> src_T
     (Some dest_K) True = (\<lparr>count = 3, edges = []\<rparr>, Inr example_temperature) \<and>
   map_of (meta example_temperature) ''out0'' = Some [(''units'', ''degK'')] \<and>
   map_of [(''units'', ''degK'')] ''units'' = Some ''degK'' \<and>
   srcunits example_temperature = Some ''degC'' \<and>
   conversion_tuple_to example_world ''degC'' ''degK'' = Some (1, 273.15) \<and>
   parse example_world
     (if True then transform_expression example_world (expr_text src_T) (inmap example_temperature)
      else expr_text src_T) = Inr (Name ''in0'') \<and>
   parse example_world (print_node example_world (scaler_adder_xform (Name ''in0'') 1 273.15)) =
     Inr (scaler_adder_xform (Name ''in0'') 1 273.15) \<and>
   refresh example_world example_temperature =
     Inr (example_temperature\<lparr>attrs := [''in0'' \<mapsto> PyFloat 25, ''out0'' \<mapsto> PyNone]\<rparr>) \<and>
   evaluate example_world [''in0'' \<mapsto> PyFloat 25, ''out0'' \<mapsto> PyNone] (Name ''in0'') =
     Inr (PyFloat 25) \<and>
   srcexpr example_temperature = ''in0+273.15'' \<and>
   (\<exists>n2. run example_world example_temperature = Inr n2 \<and>
         get_pc n2 ''out0'' (None :: unit option) = Inr (PyFloat 298.15))"
proof -
  have a: "map_of (meta example_node) ''out0'' = Some [(''units'', ''cm'')]"
    by (simp add: example_node_def)
  have b: "map_of [(''units'', ''cm'')] ''units'' = Some ''cm''"
    by simp
  have c: "srcunits example_node = Some ''m''"
    by (simp add: example_node_def)
  have d: "conversion_tuple_to example_world ''m'' ''cm'' = Some (100, 0)"
    by (simp add: example_world_def)
  have e: "parse example_world
     (if True then transform_expression example_world (expr_text src_a_plus_b) (inmap example_node)
      else expr_text src_a_plus_b) = Inr (BinOp (Name ''in0'') Add (Name ''in1''))"
    by (simp add: example_world_def example_parse_def src_a_plus_b_def example_node_def)
  have p: "print_node example_world
             (scaler_adder_xform (BinOp (Name ''in0'') Add (Name ''in1'')) 100 0) =
           ''(in0+in1)*100''"
    by (simp add: example_world_def scaler_adder_xform_def example_format_def)
  have f: "parse example_world
     (print_node example_world (scaler_adder_xform (BinOp (Name ''in0'') Add (Name ''in1'')) 100 0)) =
     Inr (scaler_adder_xform (BinOp (Name ''in0'') Add (Name ''in1'')) 100 0)"
    unfolding p by (simp add: example_world_def example_parse_def scaler_adder_xform_def)
  have g: "evaluate example_world
     (attrs (example_node\<lparr>attrs := [''in0'' \<mapsto> PyFloat 1, ''in1'' \<mapsto> PyFloat 2,
                                      ''out0'' \<mapsto> PyNone]\<rparr>))
     (BinOp (Name ''in0'') Add (Name ''in1'')) = Inr (PyFloat 3)"
    by simp
  have dx: "destexpr example_node = ''out0''"
    by (simp add: example_node_def)
  have first: "srcexpr example_node = ''(in0+in1)*100'' \<and>
        (\<exists>n2. run example_world example_node = Inr n2 \<and>
              get_pc n2 ''out0'' (None :: unit option) = Inr (PyFloat 300))"
    using run_applies_unit_conversion [OF example_init a b c d e f example_refresh g]
    by (simp add: p dx)
  have a': "map_of (meta example_temperature) ''out0'' = Some [(''units'', ''degK'')]"
    by (simp add: example_temperature_def)
  have b': "map_of [(''units'', ''degK'')] ''units'' = Some ''degK''"
    by simp
  have c': "srcunits example_temperature = Some ''degC''"
    by (simp add: example_temperature_def)
  have d': "conversion_tuple_to example_world ''degC'' ''degK'' = Some (1, 273.15)"
    by (simp add: example_world_def)
  have e': "parse example_world
     (if True then transform_expression example_world (expr_text src_T) (inmap example_temperature)
      else expr_text src_T) = Inr (Name ''in0'')"
    by (simp add: example_world_def example_parse_def src_T_def example_temperature_def)
  have p': "print_node example_world (scaler_adder_xform (Name ''in0'') 1 273.15) =
              ''in0+273.15''"
    by (simp add: example_world_def scaler_adder_xform_def example_format_def)
  have f': "parse example_world
              (print_node example_world (scaler_adder_xform (Name ''in0'') 1 273.15)) =
            Inr (scaler_adder_xform (Name ''in0'') 1 273.15)"
    unfolding p' by (simp add: example_world_def example_parse_def scaler_adder_xform_def)
  have g': "evaluate example_world
     (attrs (example_temperature\<lparr>attrs := [''in0'' \<mapsto> PyFloat 25, ''out0'' \<mapsto> PyNone]\<rparr>))
     (Name ''in0'') = Inr (PyFloat 25)"
    by simp
  have dx': "destexpr example_temperature = ''out0''"
    by (simp add: example_temperature_def)
  note R = run_applies_unit_conversion
      [OF example_temperature_init a' b' c' d' e' f' example_temperature_refresh g']
  have s1: "srcexpr example_temperature = ''in0+273.15''"
    using R p' by (simp only:)
  from R obtain n2 where
    r1: "run example_world example_temperature = Inr n2"
    and r2: "get_pc n2 (destexpr example_temperature) (None :: unit option) =
               Inr (PyFloat ((25 + 273.15) * 1))"
    by blast
  have "get_pc n2 ''out0'' (None :: unit option) = Inr (PyFloat 298.15)"
    using r2 by (simp add: dx')
  with r1 s1 have second: "srcexpr example_temperature = ''in0+273.15'' \<and>
        (\<exists>n2. run example_world example_temperature = Inr n2 \<and>
              get_pc n2 ''out0'' (None :: unit option) = Inr (PyFloat 298.15))"
    by blast
  show ?thesis
    using first second example_init a b c d e f example_refresh g
      example_temperature_init a' b' c' d' e' f' example_temperature_refresh g'
    by simp
qed

section \<open>The source of a parameter node\<close>

text \<open>
  C7. For a target with one reference, \<^verbatim>\<open>ParamPseudoComponent(parent, target, scaler,
  adder)\<close> returns a node whose source text is \<^verbatim>\<open>in0\<close> when the scaler is 1 and the
  adder 0, \<^verbatim>\<open>in0+<adder>\<close> when only the scaler is 1, \<^verbatim>\<open>in0*<scaler>\<close> when only
  the adder is 0, and \<^verbatim>\<open>(in0+<adder>)*<scaler>\<close> otherwise, the numbers printed with
  \<^verbatim>\<open>%.15g\<close>. With scaler 2 and adder 1, printed as \<^verbatim>\<open>2\<close> and \<^verbatim>\<open>1\<close>, the text is
  \<^verbatim>\<open>(in0+1)*2\<close>; a node of this class with this text, whose \<^verbatim>\<open>in0\<close> holds 3 when
  the source is evaluated, runs to the end, its \<^verbatim>\<open>out0\<close> then holds 8, and its
  connections are one edge from \<^verbatim>\<open>out0\<close> to every output target.
\<close>

theorem param_source_forms:
  assumes "rf target = [r0]"
  shows "\<exists>n. ParamPseudoComponent_init w rf ps target (Some scaler) (Some adder) =
               (ps\<lparr>count := Suc (count ps)\<rparr>, Inr n) \<and>
             srcexpr n =
               (if scaler = 1 \<and> adder = 0 then ''in0''
                else if scaler = 1 then ''in0+'' @ format_g w adder
                else if adder = 0 then ''in0*'' @ format_g w scaler
                else ''(in0+'' @ format_g w adder @ '')*'' @ format_g w scaler) \<and>
             (scaler = 2 \<and> adder = 1 \<and> format_g w 1 = ''1'' \<and> format_g w 2 = ''2'' \<longrightarrow>
                srcexpr n = ''(in0+1)*2'') \<and>
             (\<forall>m m1. cls m = cls n \<and> srcexpr m = ''(in0+1)*2'' \<and>
                parse w ''(in0+1)*2'' =
                  Inr (BinOp (BinOp (Name ''in0'') Add (Num 1)) Mult (Num 2)) \<and>
                (if \<not> valid m then refresh w m else Inr m) = Inr m1 \<and>
                attrs m1 ''in0'' = Some (PyFloat 3) \<longrightarrow>
                (\<exists>m2. run w m = Inr m2 \<and>
                      get_pc m2 (destexpr m) (None :: unit option) = Inr (PyFloat 8) \<and>
                      list_connections m2 False =
                        map (\<lambda>dest. (name m @ ''.out0'', dest)) (outdests m)))"
proof -
  let ?src = "if scaler = 1 \<and> adder = 0 then ''in0''
                else if scaler = 1 then ''in0+'' @ format_g w adder
                else if adder = 0 then ''in0*'' @ format_g w scaler
                else ''(in0+'' @ format_g w adder @ '')*'' @ format_g w scaler"
  from param_init_total [where rf = rf and target = target and ?r0.0 = r0 and w = w
      and ps = ps and src = ?src] assms
  obtain k where k: "PseudoComponent_init w ParamPseudoComponent ps
               (ConnectedExprEvaluator rf ?src)
               (Some (ConnectedExprEvaluator rf target)) False =
               (ps\<lparr>count := Suc (count ps)\<rparr>, Inr k)"
    and sk: "srcexpr k = ?src" and ck: "cls k = ParamPseudoComponent"
    by blast
  define n where "n = k\<lparr>scaler_adder := Some (scaler, adder)\<rparr>"
  have init: "ParamPseudoComponent_init w rf ps target (Some scaler) (Some adder) =
               (ps\<lparr>count := Suc (count ps)\<rparr>, Inr n)"
    using k by (simp add: ParamPseudoComponent_init_def Let_def n_def)
  have sn: "srcexpr n = ?src" and cn: "cls n = ParamPseudoComponent"
    using sk ck by (simp_all add: n_def)
  have scen: "srcexpr n = ''(in0+1)*2''"
    if "scaler = 2 \<and> adder = 1 \<and> format_g w 1 = ''1'' \<and> format_g w 2 = ''2''"
    using that sn by simp
  have runs: "\<exists>m2. run w m = Inr m2 \<and>
                      get_pc m2 (destexpr m) (None :: unit option) = Inr (PyFloat 8) \<and>
                      list_connections m2 False =
                        map (\<lambda>dest. (name m @ ''.out0'', dest)) (outdests m)"
    if h: "cls m = cls n \<and> srcexpr m = ''(in0+1)*2'' \<and>
           parse w ''(in0+1)*2'' = Inr (BinOp (BinOp (Name ''in0'') Add (Num 1)) Mult (Num 2)) \<and>
           (if \<not> valid m then refresh w m else Inr m) = Inr m1 \<and>
           attrs m1 ''in0'' = Some (PyFloat 3)" for m m1
  proof -
    have f: "srcexpr m1 = srcexpr m" "destexpr m1 = destexpr m" "cls m1 = cls m"
      "name m1 = name m" "outdests m1 = outdests m"
      using h refresh_keeps [of w m m1] by (auto split: if_splits)
    have ev: "evaluate_text w (attrs m1) (srcexpr m1) = Inr (PyFloat 8)"
      using h f by (simp add: evaluate_text_def)
    have "run w m =
            Inr (m1\<lparr>attrs := (attrs m1)(destexpr m \<mapsto> PyFloat 8), valid := True\<rparr>)"
      using h ev f by (simp add: run_def strip_units_def set_pc_def)
    then show ?thesis
      using f h cn by (simp add: get_pc_def list_connections_def)
  qed
  show ?thesis
    using init sn scen runs by blast
qed

theorem param_source_forms_witness:
  "example_refs_of ''x.value'' = [''x.value''] \<and>
   ParamPseudoComponent_init example_world example_refs_of \<lparr>count = 1, edges = []\<rparr>
     ''x.value'' (Some 2) (Some 1) = (\<lparr>count = 2, edges = []\<rparr>, Inr example_param) \<and>
   format_g example_world 1 = ''1'' \<and> format_g example_world 2 = ''2'' \<and>
   srcexpr example_param = ''(in0+1)*2'' \<and>
   set_pc example_param ''in0'' (PyFloat 3) (None :: unit option) = Inr example_param_in0 \<and>
   add_target example_param_in0 ''y.value'' = example_param_two_targets \<and>
   cls example_param_two_targets = cls example_param \<and>
   srcexpr example_param_two_targets = ''(in0+1)*2'' \<and>
   parse example_world ''(in0+1)*2'' =
     Inr (BinOp (BinOp (Name ''in0'') Add (Num 1)) Mult (Num 2)) \<and>
   (if \<not> valid example_param_two_targets
    then refresh example_world example_param_two_targets
    else Inr example_param_two_targets) = Inr example_param_two_targets \<and>
   attrs example_param_two_targets ''in0'' = Some (PyFloat 3) \<and>
   (\<exists>m2. run example_world example_param_two_targets = Inr m2 \<and>
         get_pc m2 ''out0'' (None :: unit option) = Inr (PyFloat 8) \<and>
         list_connections m2 False =
           [(''_pseudo_1.out0'', ''x.value''), (''_pseudo_1.out0'', ''y.value'')])"
proof -
  have r: "example_refs_of ''x.value'' = [''x.value'']"
    by (simp add: example_refs_of_def)
  have fm: "format_g example_world 1 = ''1'' \<and> format_g example_world 2 = ''2''"
    by (simp add: example_world_def example_format_def)
  have pa: "parse example_world ''(in0+1)*2'' =
     Inr (BinOp (BinOp (Name ''in0'') Add (Num 1)) Mult (Num 2))"
    by (simp add: example_world_def example_parse_def)
  have t: "cls example_param_two_targets = cls example_param"
    "srcexpr example_param_two_targets = ''(in0+1)*2''"
    "attrs example_param_two_targets ''in0'' = Some (PyFloat 3)"
    "destexpr example_param_two_targets = ''out0''"
    "name example_param_two_targets = ''_pseudo_1''"
    "outdests example_param_two_targets = [''x.value'', ''y.value'']"
    "\<not> valid example_param_two_targets"
    by (simp_all add: example_param_two_targets_def example_param_in0_def example_param_def
        add_target_def)
  have rf: "(if \<not> valid example_param_two_targets
    then refresh example_world example_param_two_targets
    else Inr example_param_two_targets) = Inr example_param_two_targets"
    by (simp add: t refresh_def example_world_def)
  from param_source_forms [where rf = example_refs_of and target = "''x.value''"
      and ?r0.0 = "''x.value''" and w = example_world and ps = "\<lparr>count = 1, edges = []\<rparr>"
      and scaler = 2 and adder = 1, OF r]
  obtain n where
    i: "ParamPseudoComponent_init example_world example_refs_of \<lparr>count = 1, edges = []\<rparr>
          ''x.value'' (Some 2) (Some 1) =
          (\<lparr>count = 1, edges = []\<rparr>\<lparr>count := Suc (count \<lparr>count = 1, edges = []\<rparr>)\<rparr>, Inr n)"
    and sc: "(2::real) = 2 \<and> (1::real) = 1 \<and> format_g example_world 1 = ''1'' \<and>
             format_g example_world 2 = ''2'' \<longrightarrow> srcexpr n = ''(in0+1)*2''"
    and ru: "\<forall>m m1. cls m = cls n \<and> srcexpr m = ''(in0+1)*2'' \<and>
                parse example_world ''(in0+1)*2'' =
                  Inr (BinOp (BinOp (Name ''in0'') Add (Num 1)) Mult (Num 2)) \<and>
                (if \<not> valid m then refresh example_world m else Inr m) = Inr m1 \<and>
                attrs m1 ''in0'' = Some (PyFloat 3) \<longrightarrow>
                (\<exists>m2. run example_world m = Inr m2 \<and>
                      get_pc m2 (destexpr m) (None :: unit option) = Inr (PyFloat 8) \<and>
                      list_connections m2 False =
                        map (\<lambda>dest. (name m @ ''.out0'', dest)) (outdests m))"
    by blast
  have n: "n = example_param"
    using i example_param_init by simp
  have s1: "srcexpr example_param = ''(in0+1)*2''"
    using sc fm n by simp
  have "\<exists>m2. run example_world example_param_two_targets = Inr m2 \<and>
          get_pc m2 (destexpr example_param_two_targets) (None :: unit option) =
            Inr (PyFloat 8) \<and>
          list_connections m2 False =
            map (\<lambda>dest. (name example_param_two_targets @ ''.out0'', dest))
              (outdests example_param_two_targets)"
    using ru [rule_format, of example_param_two_targets example_param_two_targets]
      t(1,2,3) pa rf n by blast
  then have s2: "\<exists>m2. run example_world example_param_two_targets = Inr m2 \<and>
         get_pc m2 ''out0'' (None :: unit option) = Inr (PyFloat 8) \<and>
         list_connections m2 False =
           [(''_pseudo_1.out0'', ''x.value''), (''_pseudo_1.out0'', ''y.value'')]"
    by (simp add: t)
  show ?thesis
    using r example_param_init fm s1 example_param_set t(1,2,3) pa rf s2
    by (simp add: example_param_two_targets_def)
qed

end
